theory Spec2Isabelle
  imports Main
begin

section \<open>Data model\<close>

text \<open>
  The service layer of the certificate workflow (\<^verbatim>\<open>internal/op/certificate.go\<close>)
  and the tenant request handler (package \<^verbatim>\<open>handles\<close>) are embedded here. The
  packages \<^verbatim>\<open>model\<close> and \<^verbatim>\<open>db\<close> they call are modelled from the
  specification's data model; every such definition says so.

  Go's \<^verbatim>\<open>uint\<close> identifiers are natural numbers: the service only compares and
  prints them. Record fields carry the struct's name as a prefix (\<open>cert_\<close>, \<open>req_\<close>,
  \<open>user_\<close>), since the three structs share field names.
\<close>

text \<open>
  Modelled from the spec: the types \<^verbatim>\<open>model.CertificateType\<close> and
  \<^verbatim>\<open>model.CertificateStatus\<close>. Both are string types in the source (the handlers
  convert a JSON string to the first, and the service prints the second with \<^verbatim>\<open>%s\<close>).
\<close>

type_synonym CertificateType = string

type_synonym CertificateStatus = string

text \<open>
  Modelled from the spec: the status constants of package \<^verbatim>\<open>model\<close>, with the
  texts of the specification's enumeration (valid, expiring, revoked, pending, rejected).
\<close>

definition CertificateStatusValid :: CertificateStatus where
  "CertificateStatusValid = ''valid''"

definition CertificateStatusExpiring :: CertificateStatus where
  "CertificateStatusExpiring = ''expiring''"

definition CertificateStatusRevoked :: CertificateStatus where
  "CertificateStatusRevoked = ''revoked''"

definition CertificateStatusPending :: CertificateStatus where
  "CertificateStatusPending = ''pending''"

definition CertificateStatusRejected :: CertificateStatus where
  "CertificateStatusRejected = ''rejected''"

text \<open>
  A value of Go's \<^verbatim>\<open>time.Time\<close>, as a civil date and the nanoseconds since
  midnight.
\<close>

record Time =
  Year :: int
  Month :: nat
  Day :: nat
  Nanos :: nat

definition leap_year :: "int \<Rightarrow> bool" where
  "leap_year y = (y mod 4 = 0 \<and> (y mod 100 \<noteq> 0 \<or> y mod 400 = 0))"

text \<open>
  \<^verbatim>\<open>t.AddDate(years, 0, 0)\<close> of Go's standard library, the only form the service
  calls: the same month, day and time of day in the year \<open>Year t + years\<close>, where
  29 February is normalised to 1 March when that year is not a leap year.
\<close>

definition AddDate :: "int \<Rightarrow> Time \<Rightarrow> Time" where
  "AddDate years t =
     (let y = Year t + years
      in if Month t = 2 \<and> Day t = 29 \<and> \<not> leap_year y
         then \<lparr>Year = y, Month = 3, Day = 1, Nanos = Nanos t\<rparr>
         else t\<lparr>Year := y\<rparr>)"

text \<open>Modelled from the spec: the struct \<^verbatim>\<open>model.Certificate\<close>.\<close>

record Certificate =
  cert_ID :: nat
  cert_Name :: string
  cert_Type :: CertificateType
  cert_Status :: CertificateStatus
  cert_Owner :: string
  cert_OwnerID :: nat
  cert_Content :: string
  cert_IssuedDate :: Time
  cert_ExpirationDate :: Time

text \<open>
  Modelled from the spec: the struct \<^verbatim>\<open>model.CertificateRequest\<close>. The two
  timestamps are pointers in the source (\<^verbatim>\<open>req.ApprovedAt = &now\<close>), so they are
  optional here.
\<close>

record CertificateRequest =
  req_ID :: nat
  req_UserName :: string
  req_UserID :: nat
  req_Type :: CertificateType
  req_Status :: CertificateStatus
  req_Reason :: string
  req_ApprovedBy :: string
  req_ApprovedAt :: "Time option"
  req_RejectedBy :: string
  req_RejectedAt :: "Time option"
  req_RejectedReason :: string

text \<open>
  Modelled from the spec: the method \<^verbatim>\<open>IsPending\<close> of a request, the "single is
  pending predicate" that compares the status with the pending constant.
\<close>

definition IsPending :: "CertificateRequest \<Rightarrow> bool" where
  "IsPending r = (req_Status r = CertificateStatusPending)"

text \<open>The two fields of \<^verbatim>\<open>model.User\<close> that the service reads.\<close>

record User =
  user_ID :: nat
  user_Username :: string

section \<open>Errors\<close>

text \<open>
  Go error values as the service builds and inspects them: the sentinel
  \<^verbatim>\<open>gorm.ErrRecordNotFound\<close>, any other failure the storage reports, a
  \<^verbatim>\<open>fmt.Errorf\<close> message, and \<^verbatim>\<open>errors.Wrap(err, msg)\<close>.
\<close>

datatype error =
    ErrRecordNotFound
  | StorageError string
  | Errorf string
  | Wrap error string

text \<open>\<^verbatim>\<open>err.Error()\<close>: the message text.\<close>

fun Error :: "error \<Rightarrow> string" where
  "Error ErrRecordNotFound = ''record not found''"
| "Error (StorageError msg) = msg"
| "Error (Errorf msg) = msg"
| "Error (Wrap err msg) = msg @ '': '' @ Error err"

text \<open>\<^verbatim>\<open>errors.Is(err, gorm.ErrRecordNotFound)\<close>: looks through the wrappers.\<close>

fun is_record_not_found :: "error \<Rightarrow> bool" where
  "is_record_not_found ErrRecordNotFound = True"
| "is_record_not_found (Wrap err msg) = is_record_not_found err"
| "is_record_not_found (StorageError msg) = False"
| "is_record_not_found (Errorf msg) = False"

text \<open>The verb \<^verbatim>\<open>%d\<close> on an unsigned integer: its decimal digits.\<close>

definition digit_char :: "nat \<Rightarrow> char" where
  "digit_char d = char_of (48 + d)"

fun fmt_d :: "nat \<Rightarrow> string" where
  "fmt_d n = (if n < 10 then [digit_char n] else fmt_d (n div 10) @ [digit_char (n mod 10)])"

declare fmt_d.simps [simp del]

section \<open>The storage layer and the clock\<close>

text \<open>
  Modelled from the spec: the data access layer (package \<^verbatim>\<open>db\<close>), "CRUD primitives
  over two record kinds, keyed by numeric identifier, queried by owner/user identifier",
  where "each storage call is independently committed". The two tables are lists of rows
  in insertion order; identifiers are assigned by a counter on insert; \<open>journal\<close> lists
  the committed writes. A storage call may fail: \<open>fault_plan\<close> gives, for the n-th storage
  call, the message of the failure it meets, if any, and \<open>db_calls\<close> counts the calls made.
  \<open>clock\<close> gives the result of the n-th call of \<^verbatim>\<open>time.Now()\<close>, and
  \<open>clock_reads\<close> counts those.
\<close>

datatype db_write =
    InsertCertificate nat
  | SaveCertificate nat
  | InsertRequest nat
  | SaveRequest nat

record world =
  certificates :: "Certificate list"
  cert_requests :: "CertificateRequest list"
  next_certificate_id :: nat
  next_request_id :: nat
  journal :: "db_write list"
  fault_plan :: "nat \<Rightarrow> string option"
  db_calls :: nat
  clock :: "nat \<Rightarrow> Time"
  clock_reads :: nat

definition time_Now :: "world \<Rightarrow> Time \<times> world" where
  "time_Now w = (clock w (clock_reads w), w\<lparr>clock_reads := Suc (clock_reads w)\<rparr>)"

text \<open>
  Modelled from the spec: the start of every storage call, which counts the call and
  reports the failure planned for it.
\<close>

definition db_begin :: "world \<Rightarrow> string option \<times> world" where
  "db_begin w = (fault_plan w (db_calls w), w\<lparr>db_calls := Suc (db_calls w)\<rparr>)"

text \<open>
  Modelled from the spec: \<^verbatim>\<open>db.GetCertificateByOwnerID\<close>, the get-by-owner query. It
  yields the first stored certificate of the owner, \<^verbatim>\<open>gorm.ErrRecordNotFound\<close> when
  there is none.
\<close>

definition db_GetCertificateByOwnerID :: "nat \<Rightarrow> world \<Rightarrow> (error + Certificate) \<times> world" where
  "db_GetCertificateByOwnerID ownerID w =
     (case db_begin w of
        (Some msg, w') \<Rightarrow> (Inl (StorageError msg), w')
      | (None, w') \<Rightarrow>
          (case find (\<lambda>c. cert_OwnerID c = ownerID) (certificates w') of
             None \<Rightarrow> (Inl ErrRecordNotFound, w')
           | Some c \<Rightarrow> (Inr c, w')))"

text \<open>Modelled from the spec: \<^verbatim>\<open>db.GetCertificateByID\<close>, the get-by-id query.\<close>

definition db_GetCertificateByID :: "nat \<Rightarrow> world \<Rightarrow> (error + Certificate) \<times> world" where
  "db_GetCertificateByID certID w =
     (case db_begin w of
        (Some msg, w') \<Rightarrow> (Inl (StorageError msg), w')
      | (None, w') \<Rightarrow>
          (case find (\<lambda>c. cert_ID c = certID) (certificates w') of
             None \<Rightarrow> (Inl ErrRecordNotFound, w')
           | Some c \<Rightarrow> (Inr c, w')))"

text \<open>
  Modelled from the spec: \<^verbatim>\<open>db.CreateCertificate\<close>, the insert. The new row gets the
  next identifier, which the caller sees in its struct afterwards.
\<close>

definition db_CreateCertificate :: "Certificate \<Rightarrow> world \<Rightarrow> (error + Certificate) \<times> world" where
  "db_CreateCertificate cert w =
     (case db_begin w of
        (Some msg, w') \<Rightarrow> (Inl (StorageError msg), w')
      | (None, w') \<Rightarrow>
          (let c = cert\<lparr>cert_ID := next_certificate_id w'\<rparr>
           in (Inr c,
               w'\<lparr>certificates := certificates w' @ [c],
                  next_certificate_id := Suc (next_certificate_id w'),
                  journal := journal w' @ [InsertCertificate (cert_ID c)]\<rparr>)))"

text \<open>
  Modelled from the spec: \<^verbatim>\<open>db.UpdateCertificate\<close>, the update: the row with the
  certificate's identifier is replaced by the given value.
\<close>

definition db_UpdateCertificate :: "Certificate \<Rightarrow> world \<Rightarrow> error option \<times> world" where
  "db_UpdateCertificate cert w =
     (case db_begin w of
        (Some msg, w') \<Rightarrow> (Some (StorageError msg), w')
      | (None, w') \<Rightarrow>
          (None,
           w'\<lparr>certificates :=
                 map (\<lambda>c. if cert_ID c = cert_ID cert then cert else c) (certificates w'),
              journal := journal w' @ [SaveCertificate (cert_ID cert)]\<rparr>))"

text \<open>Modelled from the spec: \<^verbatim>\<open>db.GetCertificateRequestByID\<close>.\<close>

definition db_GetCertificateRequestByID ::
  "nat \<Rightarrow> world \<Rightarrow> (error + CertificateRequest) \<times> world" where
  "db_GetCertificateRequestByID reqID w =
     (case db_begin w of
        (Some msg, w') \<Rightarrow> (Inl (StorageError msg), w')
      | (None, w') \<Rightarrow>
          (case find (\<lambda>r. req_ID r = reqID) (cert_requests w') of
             None \<Rightarrow> (Inl ErrRecordNotFound, w')
           | Some r \<Rightarrow> (Inr r, w')))"

text \<open>
  Modelled from the spec: \<^verbatim>\<open>db.GetPendingCertificateRequestByUserID\<close>, "look up any
  pending request owned by that user": the first stored request of the user whose status
  is pending.
\<close>

definition db_GetPendingCertificateRequestByUserID ::
  "nat \<Rightarrow> world \<Rightarrow> (error + CertificateRequest) \<times> world" where
  "db_GetPendingCertificateRequestByUserID userID w =
     (case db_begin w of
        (Some msg, w') \<Rightarrow> (Inl (StorageError msg), w')
      | (None, w') \<Rightarrow>
          (case find (\<lambda>r. req_UserID r = userID \<and> req_Status r = CertificateStatusPending)
                  (cert_requests w') of
             None \<Rightarrow> (Inl ErrRecordNotFound, w')
           | Some r \<Rightarrow> (Inr r, w')))"

text \<open>Modelled from the spec: \<^verbatim>\<open>db.CreateCertificateRequest\<close>, the insert.\<close>

definition db_CreateCertificateRequest ::
  "CertificateRequest \<Rightarrow> world \<Rightarrow> (error + CertificateRequest) \<times> world" where
  "db_CreateCertificateRequest request w =
     (case db_begin w of
        (Some msg, w') \<Rightarrow> (Inl (StorageError msg), w')
      | (None, w') \<Rightarrow>
          (let r = request\<lparr>req_ID := next_request_id w'\<rparr>
           in (Inr r,
               w'\<lparr>cert_requests := cert_requests w' @ [r],
                  next_request_id := Suc (next_request_id w'),
                  journal := journal w' @ [InsertRequest (req_ID r)]\<rparr>)))"

text \<open>
  Modelled from the spec: \<^verbatim>\<open>db.UpdateCertificateRequest\<close>, the update: the row with
  the request's identifier is replaced by the given value.
\<close>

definition db_UpdateCertificateRequest ::
  "CertificateRequest \<Rightarrow> world \<Rightarrow> error option \<times> world" where
  "db_UpdateCertificateRequest req w =
     (case db_begin w of
        (Some msg, w') \<Rightarrow> (Some (StorageError msg), w')
      | (None, w') \<Rightarrow>
          (None,
           w'\<lparr>cert_requests :=
                 map (\<lambda>r. if req_ID r = req_ID req then req else r) (cert_requests w'),
              journal := journal w' @ [SaveRequest (req_ID req)]\<rparr>))"

section \<open>The certificate service\<close>

text \<open>
  \<^verbatim>\<open>GetCertificateForTenant\<close>: the result \<open>Inr None\<close> is the source's
  \<^verbatim>\<open>return nil, nil\<close>.
\<close>

definition GetCertificateForTenant ::
  "nat \<Rightarrow> world \<Rightarrow> (error + Certificate option) \<times> world" where
  "GetCertificateForTenant ownerID w =
     (case db_GetCertificateByOwnerID ownerID w of
        (Inl err, w') \<Rightarrow>
          if \<not> is_record_not_found err then (Inl err, w') else (Inr None, w')
      | (Inr cert, w') \<Rightarrow> (Inr (Some cert), w'))"

text \<open>\<^verbatim>\<open>RevokeCertificate\<close>: \<open>None\<close> is the nil error.\<close>

definition RevokeCertificate :: "nat \<Rightarrow> world \<Rightarrow> error option \<times> world" where
  "RevokeCertificate certID w =
     (case db_GetCertificateByID certID w of
        (Inl err, w') \<Rightarrow> (Some err, w')
      | (Inr cert, w') \<Rightarrow>
          db_UpdateCertificate (cert\<lparr>cert_Status := CertificateStatusRevoked\<rparr>) w')"

text \<open>
  \<^verbatim>\<open>CreateTenantCertificateRequest\<close>. Each of the two checks is the error it
  returns early with, if any; the lookup's result \<open>Inl err\<close> is the source's nil
  certificate with a non-nil error.
\<close>

definition CreateTenantCertificateRequest ::
  "User \<Rightarrow> CertificateType \<Rightarrow> string \<Rightarrow> world \<Rightarrow> (error + CertificateRequest) \<times> world" where
  "CreateTenantCertificateRequest user reqType reason w =
     (case db_GetCertificateByOwnerID (user_ID user) w of (existing, w1) \<Rightarrow>
        (case (case existing of
                 Inl err \<Rightarrow>
                   if \<not> is_record_not_found err
                   then Some (Wrap err ''failed to check existing certificate'')
                   else None
               | Inr existingCert \<Rightarrow>
                   if cert_Status existingCert = CertificateStatusValid
                      \<or> cert_Status existingCert = CertificateStatusExpiring
                   then Some (Errorf ''certificate already exists for user'')
                   else None) of
           Some e \<Rightarrow> (Inl e, w1)
         | None \<Rightarrow>
             (case db_GetPendingCertificateRequestByUserID (user_ID user) w1 of (pending, w2) \<Rightarrow>
                (case (case pending of
                         Inl err \<Rightarrow>
                           if \<not> is_record_not_found err
                           then Some (Wrap err ''failed to check pending request'')
                           else None
                       | Inr found \<Rightarrow> Some (Errorf ''certificate request is pending for user'')) of
                   Some e \<Rightarrow> (Inl e, w2)
                 | None \<Rightarrow>
                     db_CreateCertificateRequest
                       \<lparr>req_ID = 0,
                        req_UserName = user_Username user,
                        req_UserID = user_ID user,
                        req_Type = reqType,
                        req_Status = CertificateStatusPending,
                        req_Reason = reason,
                        req_ApprovedBy = '''',
                        req_ApprovedAt = None,
                        req_RejectedBy = '''',
                        req_RejectedAt = None,
                        req_RejectedReason = ''''\<rparr> w2))))"

text \<open>
  \<^verbatim>\<open>ApproveAndCreateCertificate\<close>. The source reads the clock three times, in this
  order: for the issued date, for the expiration date and for the approval timestamp.
\<close>

definition ApproveAndCreateCertificate ::
  "nat \<Rightarrow> User \<Rightarrow> world \<Rightarrow> (error + Certificate) \<times> world" where
  "ApproveAndCreateCertificate reqID adminUser w =
     (case db_GetCertificateRequestByID reqID w of
        (Inl err, w1) \<Rightarrow>
          (Inl (Wrap err (''failed to get request by id: '' @ fmt_d reqID)), w1)
      | (Inr req, w1) \<Rightarrow>
          if \<not> IsPending req
          then (Inl (Errorf (''request is not pending, current status: '' @ req_Status req)), w1)
          else
            (case time_Now w1 of (issued, w2) \<Rightarrow>
             case time_Now w2 of (expires, w3) \<Rightarrow>
             case time_Now w3 of (now, w4) \<Rightarrow>
               (let cert =
                      \<lparr>cert_ID = 0,
                       cert_Name = req_UserName req @ ''-'' @ req_Type req @ ''-cert'',
                       cert_Type = req_Type req,
                       cert_Status = CertificateStatusValid,
                       cert_Owner = req_UserName req,
                       cert_OwnerID = req_UserID req,
                       cert_Content = '''',
                       cert_IssuedDate = issued,
                       cert_ExpirationDate = AddDate 1 expires\<rparr>;
                    req' =
                      req\<lparr>req_Status := CertificateStatusValid,
                          req_ApprovedBy := user_Username adminUser,
                          req_ApprovedAt := Some now\<rparr>
                in case db_CreateCertificate cert w4 of
                     (Inl err, w5) \<Rightarrow> (Inl (Wrap err ''failed to create certificate''), w5)
                   | (Inr created, w5) \<Rightarrow>
                       (case db_UpdateCertificateRequest req' w5 of
                          (Some err, w6) \<Rightarrow> (Inl (Wrap err ''failed to update request''), w6)
                        | (None, w6) \<Rightarrow> (Inr created, w6)))))"

text \<open>\<^verbatim>\<open>RejectCertificateRequest\<close>: \<open>None\<close> is the nil error.\<close>

definition RejectCertificateRequest ::
  "nat \<Rightarrow> User \<Rightarrow> string \<Rightarrow> world \<Rightarrow> error option \<times> world" where
  "RejectCertificateRequest reqID adminUser reason w =
     (case db_GetCertificateRequestByID reqID w of
        (Inl err, w1) \<Rightarrow>
          (Some (Wrap err (''failed to get request by id: '' @ fmt_d reqID)), w1)
      | (Inr req, w1) \<Rightarrow>
          if \<not> IsPending req
          then (Some (Errorf (''request is not pending, current status: '' @ req_Status req)), w1)
          else
            (case time_Now w1 of (now, w2) \<Rightarrow>
               db_UpdateCertificateRequest
                 (req\<lparr>req_Status := CertificateStatusRejected,
                      req_RejectedBy := user_Username adminUser,
                      req_RejectedAt := Some now,
                      req_RejectedReason := reason\<rparr>) w2))"

section \<open>The tenant request handler\<close>

text \<open>
  What a handler answers with: \<^verbatim>\<open>common.ErrorResp(c, err, code)\<close> with the error
  and the status code the handler passes, or \<^verbatim>\<open>common.SuccessResp(c, request)\<close>.
\<close>

datatype response =
    ErrorResp error nat
  | SuccessResp CertificateRequest

text \<open>
  The handler \<^verbatim>\<open>CreateTenantCertificateRequest\<close> of package \<^verbatim>\<open>handles\<close>.
  \<open>bound\<close> is the outcome of \<^verbatim>\<open>c.ShouldBindJSON(&req)\<close>: the binding error, or the
  type and the reason of the request body; \<open>user\<close> is the user of the request context.
\<close>

definition handles_CreateTenantCertificateRequest ::
  "(error + CertificateType \<times> string) \<Rightarrow> User \<Rightarrow> world \<Rightarrow> response \<times> world" where
  "handles_CreateTenantCertificateRequest bound user w =
     (case bound of
        Inl err \<Rightarrow> (ErrorResp err 400, w)
      | Inr (reqType, reason) \<Rightarrow>
          (case CreateTenantCertificateRequest user reqType reason w of
             (Inl err, w') \<Rightarrow>
               if Error err = ''certificate already exists for user''
                  \<or> Error err = ''certificate request is pending for user''
               then (ErrorResp err 400, w')
               else (ErrorResp err 500, w')
           | (Inr request, w') \<Rightarrow> (SuccessResp request, w')))"

section \<open>Sequences of service operations\<close>

text \<open>
  The operations of the service that write to the store, with their arguments, and the
  world after one of them and after a sequence of them, whatever each returned.
\<close>

datatype service_op =
    Approve nat User
  | Reject nat User string
  | TenantRequest User CertificateType string
  | Revoke nat

fun step :: "service_op \<Rightarrow> world \<Rightarrow> world" where
  "step (Approve reqID adminUser) w = snd (ApproveAndCreateCertificate reqID adminUser w)"
| "step (Reject reqID adminUser reason) w = snd (RejectCertificateRequest reqID adminUser reason w)"
| "step (TenantRequest user reqType reason) w =
     snd (CreateTenantCertificateRequest user reqType reason w)"
| "step (Revoke certID) w = snd (RevokeCertificate certID w)"

fun run :: "service_op list \<Rightarrow> world \<Rightarrow> world" where
  "run [] w = w"
| "run (x # xs) w = run xs (step x w)"

section \<open>Reading the store\<close>

text \<open>
  What the tables hold, as the queries of the storage layer see it when they meet no
  failure: the request and the certificate stored under an identifier, the certificate of
  an owner, and whether that certificate blocks a new request of its owner.
\<close>

definition stored_request :: "world \<Rightarrow> nat \<Rightarrow> CertificateRequest option" where
  "stored_request w reqID = find (\<lambda>r. req_ID r = reqID) (cert_requests w)"

definition stored_certificate :: "world \<Rightarrow> nat \<Rightarrow> Certificate option" where
  "stored_certificate w certID = find (\<lambda>c. cert_ID c = certID) (certificates w)"

definition owner_certificate :: "world \<Rightarrow> nat \<Rightarrow> Certificate option" where
  "owner_certificate w ownerID = find (\<lambda>c. cert_OwnerID c = ownerID) (certificates w)"

definition blocking_certificate :: "world \<Rightarrow> nat \<Rightarrow> bool" where
  "blocking_certificate w ownerID =
     (case owner_certificate w ownerID of
        None \<Rightarrow> False
      | Some c \<Rightarrow>
          cert_Status c = CertificateStatusValid \<or> cert_Status c = CertificateStatusExpiring)"

text \<open>The next \<open>n\<close> storage calls meet no failure.\<close>

definition storage_healthy :: "nat \<Rightarrow> world \<Rightarrow> bool" where
  "storage_healthy n w = (\<forall>k<n. fault_plan w (db_calls w + k) = None)"

section \<open>A concrete store\<close>

text \<open>
  The store of the specification's scenarios, on which the properties below are run: the
  pending request 7 of alice for a client certificate, the rejected request 8, the expiring
  certificate of bob and a revoked certificate of carol. No storage call fails, and the
  clock advances by one nanosecond from one reading to the next.
\<close>

definition scenario_clock :: "nat \<Rightarrow> Time" where
  "scenario_clock n = \<lparr>Year = 2026, Month = 11, Day = 1, Nanos = n\<rparr>"

definition admin :: User where
  "admin = \<lparr>user_ID = 1, user_Username = ''admin''\<rparr>"

definition alice :: User where
  "alice = \<lparr>user_ID = 3, user_Username = ''alice''\<rparr>"

definition bob :: User where
  "bob = \<lparr>user_ID = 4, user_Username = ''bob''\<rparr>"

definition carol :: User where
  "carol = \<lparr>user_ID = 5, user_Username = ''carol''\<rparr>"

definition alice_request :: CertificateRequest where
  "alice_request =
     \<lparr>req_ID = 7, req_UserName = ''alice'', req_UserID = 3, req_Type = ''client'',
      req_Status = ''pending'', req_Reason = ''vpn'', req_ApprovedBy = '''',
      req_ApprovedAt = None, req_RejectedBy = '''', req_RejectedAt = None,
      req_RejectedReason = ''''\<rparr>"

definition rejected_request :: CertificateRequest where
  "rejected_request =
     \<lparr>req_ID = 8, req_UserName = ''carol'', req_UserID = 5, req_Type = ''server'',
      req_Status = ''rejected'', req_Reason = ''test'', req_ApprovedBy = '''',
      req_ApprovedAt = None, req_RejectedBy = ''admin'',
      req_RejectedAt = Some \<lparr>Year = 2026, Month = 10, Day = 1, Nanos = 0\<rparr>,
      req_RejectedReason = ''no''\<rparr>"

definition bob_certificate :: Certificate where
  "bob_certificate =
     \<lparr>cert_ID = 1, cert_Name = ''bob-client-cert'', cert_Type = ''client'',
      cert_Status = ''expiring'', cert_Owner = ''bob'', cert_OwnerID = 4, cert_Content = '''',
      cert_IssuedDate = \<lparr>Year = 2025, Month = 11, Day = 20, Nanos = 0\<rparr>,
      cert_ExpirationDate = \<lparr>Year = 2026, Month = 11, Day = 20, Nanos = 0\<rparr>\<rparr>"

definition carol_certificate :: Certificate where
  "carol_certificate =
     \<lparr>cert_ID = 2, cert_Name = ''carol-server-cert'', cert_Type = ''server'',
      cert_Status = ''revoked'', cert_Owner = ''carol'', cert_OwnerID = 5, cert_Content = '''',
      cert_IssuedDate = \<lparr>Year = 2026, Month = 1, Day = 5, Nanos = 0\<rparr>,
      cert_ExpirationDate = \<lparr>Year = 2027, Month = 1, Day = 5, Nanos = 0\<rparr>\<rparr>"

definition scenario_world :: world where
  "scenario_world =
     \<lparr>certificates = [bob_certificate, carol_certificate],
      cert_requests = [alice_request, rejected_request],
      next_certificate_id = 3,
      next_request_id = 9,
      journal = [],
      fault_plan = (\<lambda>k. None),
      db_calls = 0,
      clock = scenario_clock,
      clock_reads = 0\<rparr>"

text \<open>The same store, where the storage call number \<open>n\<close> from now (counted from 0) fails.\<close>

definition failing_at :: "nat \<Rightarrow> world" where
  "failing_at n =
     scenario_world\<lparr>fault_plan := (\<lambda>k. if k = n then Some ''database is locked'' else None)\<rparr>"

section \<open>Properties of the service\<close>

lemmas status_defs =
  CertificateStatusValid_def CertificateStatusExpiring_def CertificateStatusRevoked_def
  CertificateStatusPending_def CertificateStatusRejected_def

text \<open>The storage calls and the clock, and the rows of the concrete store.\<close>

lemmas db_defs =
  db_GetCertificateByOwnerID_def db_GetCertificateByID_def db_CreateCertificate_def
  db_UpdateCertificate_def db_GetCertificateRequestByID_def
  db_GetPendingCertificateRequestByUserID_def db_CreateCertificateRequest_def
  db_UpdateCertificateRequest_def db_begin_def time_Now_def

lemmas scenario_defs =
  scenario_world_def scenario_clock_def
  alice_request_def rejected_request_def bob_certificate_def carol_certificate_def

subsection \<open>Auxiliary facts\<close>

text \<open>A healthy storage, call by call.\<close>

lemma storage_healthy_1: "storage_healthy (Suc n) w \<Longrightarrow> fault_plan w (db_calls w) = None"
  unfolding storage_healthy_def by (drule spec [of _ 0]) simp

lemma storage_healthy_2:
  "storage_healthy (Suc (Suc n)) w \<Longrightarrow> fault_plan w (Suc (db_calls w)) = None"
  unfolding storage_healthy_def by (drule spec [of _ 1]) simp

lemma storage_healthy_3:
  "storage_healthy (Suc (Suc (Suc n))) w \<Longrightarrow> fault_plan w (Suc (Suc (db_calls w))) = None"
  unfolding storage_healthy_def by (drule spec [of _ 2]) simp

lemma healthy2D:
  assumes "storage_healthy 2 w"
  shows "fault_plan w (db_calls w) = None" "fault_plan w (Suc (db_calls w)) = None"
  using assms
  by (simp_all add: numeral_2_eq_2 storage_healthy_1 storage_healthy_2)

lemma healthy3D:
  assumes "storage_healthy 3 w"
  shows "fault_plan w (db_calls w) = None" "fault_plan w (Suc (db_calls w)) = None"
    "fault_plan w (Suc (Suc (db_calls w))) = None"
  using assms
  by (simp_all add: numeral_3_eq_3 storage_healthy_1 storage_healthy_2 storage_healthy_3)

lemma healthy4D:
  assumes "storage_healthy 4 w"
  shows "storage_healthy 2 w" "fault_plan w (Suc (Suc (db_calls w))) = None"
    "fault_plan w (Suc (Suc (Suc (db_calls w)))) = None"
proof -
  show "storage_healthy 2 w"
    using assms unfolding storage_healthy_def by simp
  show "fault_plan w (Suc (Suc (db_calls w))) = None"
    using assms unfolding storage_healthy_def by (drule_tac x = 2 in spec) simp
  show "fault_plan w (Suc (Suc (Suc (db_calls w)))) = None"
    using assms unfolding storage_healthy_def by (drule_tac x = 3 in spec) (simp add: numeral_3_eq_3)
qed

text \<open>Looking a row up by its key, before and after the row of a key is replaced.\<close>

lemma find_key_eq: "find (\<lambda>x. f x = k) xs = Some r \<Longrightarrow> f r = k"
  by (induction xs) (auto split: if_splits)

lemma find_replace_same:
  "find (\<lambda>x. f x = k) xs = Some r \<Longrightarrow> f r' = k \<Longrightarrow>
     find (\<lambda>x. f x = k) (map (\<lambda>x. if f x = k then r' else x) xs) = Some r'"
  by (induction xs) (auto split: if_splits)

lemma find_replace_other:
  "j \<noteq> k \<Longrightarrow> f r' = k \<Longrightarrow>
     find (\<lambda>x. f x = j) (map (\<lambda>x. if f x = k then r' else x) xs) = find (\<lambda>x. f x = j) xs"
  by (induction xs) (auto split: if_splits)

lemma find_append_Some: "find P xs = Some r \<Longrightarrow> find P (xs @ ys) = Some r"
  by (induction xs) (auto split: if_splits)

lemma find_distinct_key:
  "distinct (map f xs) \<Longrightarrow> find (\<lambda>x. f x = k) xs = Some r \<longleftrightarrow> r \<in> set xs \<and> f r = k"
  by (induction xs) (auto split: if_splits)

lemma replace_twice:
  "f r' = k \<Longrightarrow>
     map (\<lambda>x. if f x = k then r' else x) (map (\<lambda>x. if f x = k then r' else x) xs) =
     map (\<lambda>x. if f x = k then r' else x) xs"
  by (induction xs) auto

text \<open>The storage calls when they meet no failure, and when they meet one.\<close>

lemma GetCertificateRequestByID_healthy:
  "fault_plan w (db_calls w) = None \<Longrightarrow>
     db_GetCertificateRequestByID reqID w =
       (case stored_request w reqID of None \<Rightarrow> Inl ErrRecordNotFound | Some r \<Rightarrow> Inr r,
        w\<lparr>db_calls := Suc (db_calls w)\<rparr>)"
  by (simp add: db_GetCertificateRequestByID_def db_begin_def stored_request_def split: option.splits)

lemma GetCertificateByID_healthy:
  "fault_plan w (db_calls w) = None \<Longrightarrow>
     db_GetCertificateByID certID w =
       (case stored_certificate w certID of None \<Rightarrow> Inl ErrRecordNotFound | Some c \<Rightarrow> Inr c,
        w\<lparr>db_calls := Suc (db_calls w)\<rparr>)"
  by (simp add: db_GetCertificateByID_def db_begin_def stored_certificate_def split: option.splits)

lemma GetCertificateByOwnerID_healthy:
  "fault_plan w (db_calls w) = None \<Longrightarrow>
     db_GetCertificateByOwnerID ownerID w =
       (case owner_certificate w ownerID of None \<Rightarrow> Inl ErrRecordNotFound | Some c \<Rightarrow> Inr c,
        w\<lparr>db_calls := Suc (db_calls w)\<rparr>)"
  by (simp add: db_GetCertificateByOwnerID_def db_begin_def owner_certificate_def split: option.splits)

lemma GetPendingCertificateRequestByUserID_healthy:
  "fault_plan w (db_calls w) = None \<Longrightarrow>
     db_GetPendingCertificateRequestByUserID userID w =
       (case find (\<lambda>r. req_UserID r = userID \<and> req_Status r = CertificateStatusPending)
               (cert_requests w) of
          None \<Rightarrow> Inl ErrRecordNotFound
        | Some r \<Rightarrow> Inr r,
        w\<lparr>db_calls := Suc (db_calls w)\<rparr>)"
  by (simp add: db_GetPendingCertificateRequestByUserID_def db_begin_def split: option.splits)

lemma CreateCertificate_healthy:
  "fault_plan w (db_calls w) = None \<Longrightarrow>
     db_CreateCertificate cert w =
       (Inr (cert\<lparr>cert_ID := next_certificate_id w\<rparr>),
        w\<lparr>certificates := certificates w @ [cert\<lparr>cert_ID := next_certificate_id w\<rparr>],
          next_certificate_id := Suc (next_certificate_id w),
          journal := journal w @ [InsertCertificate (next_certificate_id w)],
          db_calls := Suc (db_calls w)\<rparr>)"
  by (simp add: db_CreateCertificate_def db_begin_def Let_def)

lemma CreateCertificateRequest_healthy:
  "fault_plan w (db_calls w) = None \<Longrightarrow>
     db_CreateCertificateRequest request w =
       (Inr (request\<lparr>req_ID := next_request_id w\<rparr>),
        w\<lparr>cert_requests := cert_requests w @ [request\<lparr>req_ID := next_request_id w\<rparr>],
          next_request_id := Suc (next_request_id w),
          journal := journal w @ [InsertRequest (next_request_id w)],
          db_calls := Suc (db_calls w)\<rparr>)"
  by (simp add: db_CreateCertificateRequest_def db_begin_def Let_def)

lemma UpdateCertificate_healthy:
  "fault_plan w (db_calls w) = None \<Longrightarrow>
     db_UpdateCertificate cert w =
       (None,
        w\<lparr>certificates := map (\<lambda>c. if cert_ID c = cert_ID cert then cert else c) (certificates w),
          journal := journal w @ [SaveCertificate (cert_ID cert)],
          db_calls := Suc (db_calls w)\<rparr>)"
  by (simp add: db_UpdateCertificate_def db_begin_def)

lemma UpdateCertificateRequest_healthy:
  "fault_plan w (db_calls w) = None \<Longrightarrow>
     db_UpdateCertificateRequest req w =
       (None,
        w\<lparr>cert_requests := map (\<lambda>r. if req_ID r = req_ID req then req else r) (cert_requests w),
          journal := journal w @ [SaveRequest (req_ID req)],
          db_calls := Suc (db_calls w)\<rparr>)"
  by (simp add: db_UpdateCertificateRequest_def db_begin_def)

lemma UpdateCertificateRequest_faulty:
  "fault_plan w (db_calls w) = Some msg \<Longrightarrow>
     db_UpdateCertificateRequest req w =
       (Some (StorageError msg), w\<lparr>db_calls := Suc (db_calls w)\<rparr>)"
  by (simp add: db_UpdateCertificateRequest_def db_begin_def)

lemma stored_request_ID: "stored_request w reqID = Some req \<Longrightarrow> req_ID req = reqID"
  unfolding stored_request_def by (rule find_key_eq)

lemma stored_certificate_ID: "stored_certificate w certID = Some c \<Longrightarrow> cert_ID c = certID"
  unfolding stored_certificate_def by (rule find_key_eq)

text \<open>The complete outcome of the three writing operations on a healthy storage.\<close>

lemma Approve_pending_run:
  assumes healthy: "storage_healthy 3 w"
    and stored: "stored_request w reqID = Some req"
    and pending: "IsPending req"
  shows "ApproveAndCreateCertificate reqID adminUser w =
           (Inr \<lparr>cert_ID = next_certificate_id w,
                cert_Name = req_UserName req @ ''-'' @ req_Type req @ ''-cert'',
                cert_Type = req_Type req,
                cert_Status = CertificateStatusValid,
                cert_Owner = req_UserName req,
                cert_OwnerID = req_UserID req,
                cert_Content = '''',
                cert_IssuedDate = clock w (clock_reads w),
                cert_ExpirationDate = AddDate 1 (clock w (Suc (clock_reads w)))\<rparr>,
            w\<lparr>certificates := certificates w @
                  [\<lparr>cert_ID = next_certificate_id w,
                    cert_Name = req_UserName req @ ''-'' @ req_Type req @ ''-cert'',
                    cert_Type = req_Type req,
                    cert_Status = CertificateStatusValid,
                    cert_Owner = req_UserName req,
                    cert_OwnerID = req_UserID req,
                    cert_Content = '''',
                    cert_IssuedDate = clock w (clock_reads w),
                    cert_ExpirationDate = AddDate 1 (clock w (Suc (clock_reads w)))\<rparr>],
              cert_requests :=
                map (\<lambda>r. if req_ID r = reqID
                         then req\<lparr>req_Status := CertificateStatusValid,
                                  req_ApprovedBy := user_Username adminUser,
                                  req_ApprovedAt := Some (clock w (Suc (Suc (clock_reads w))))\<rparr>
                         else r) (cert_requests w),
              next_certificate_id := Suc (next_certificate_id w),
              journal := journal w @ [InsertCertificate (next_certificate_id w), SaveRequest reqID],
              db_calls := Suc (Suc (Suc (db_calls w))),
              clock_reads := Suc (Suc (Suc (clock_reads w)))\<rparr>)"
  using stored pending stored_request_ID [OF stored]
  by (simp add: ApproveAndCreateCertificate_def GetCertificateRequestByID_healthy
      healthy3D [OF healthy] time_Now_def CreateCertificate_healthy
      UpdateCertificateRequest_healthy Let_def)

lemma Reject_pending_run:
  assumes healthy: "storage_healthy 2 w"
    and stored: "stored_request w reqID = Some req"
    and pending: "IsPending req"
  shows "RejectCertificateRequest reqID adminUser reason w =
           (None,
            w\<lparr>cert_requests :=
                map (\<lambda>r. if req_ID r = reqID
                         then req\<lparr>req_Status := CertificateStatusRejected,
                                  req_RejectedBy := user_Username adminUser,
                                  req_RejectedAt := Some (clock w (clock_reads w)),
                                  req_RejectedReason := reason\<rparr>
                         else r) (cert_requests w),
              journal := journal w @ [SaveRequest reqID],
              db_calls := Suc (Suc (db_calls w)),
              clock_reads := Suc (clock_reads w)\<rparr>)"
  using stored pending stored_request_ID [OF stored]
  by (simp add: RejectCertificateRequest_def GetCertificateRequestByID_healthy
      healthy2D [OF healthy] time_Now_def UpdateCertificateRequest_healthy)

lemma Revoke_run:
  assumes healthy: "storage_healthy 2 w"
    and stored: "stored_certificate w certID = Some c"
  shows "RevokeCertificate certID w =
           (None,
            w\<lparr>certificates :=
                map (\<lambda>x. if cert_ID x = certID then c\<lparr>cert_Status := CertificateStatusRevoked\<rparr>
                         else x) (certificates w),
              journal := journal w @ [SaveCertificate certID],
              db_calls := Suc (Suc (db_calls w))\<rparr>)"
  using stored stored_certificate_ID [OF stored]
  by (simp add: RevokeCertificate_def GetCertificateByID_healthy healthy2D [OF healthy]
      UpdateCertificate_healthy)

subsection \<open>The certificate of a tenant\<close>

text \<open>
  C8. For every owner identifier, \<^verbatim>\<open>GetCertificateForTenant\<close> returns no certificate
  and no error (\<open>Inr None\<close>) when the owner lookup reports record-not-found; it returns any
  other error of the lookup as its own error; and when the lookup succeeds it returns the
  certificate found, unchanged.
\<close>

theorem GetCertificateForTenant_cases:
  "(db_GetCertificateByOwnerID ownerID w = (Inl err, w') \<and> is_record_not_found err \<longrightarrow>
      GetCertificateForTenant ownerID w = (Inr None, w'))
 \<and> (db_GetCertificateByOwnerID ownerID w = (Inl err, w') \<and> \<not> is_record_not_found err \<longrightarrow>
      GetCertificateForTenant ownerID w = (Inl err, w'))
 \<and> (db_GetCertificateByOwnerID ownerID w = (Inr cert, w') \<longrightarrow>
      GetCertificateForTenant ownerID w = (Inr (Some cert), w'))"
  by (simp add: GetCertificateForTenant_def)

text \<open>
  On the concrete store: alice owns no certificate, bob owns one, and a failing storage
  gives its error back.
\<close>

theorem GetCertificateForTenant_cases_witness:
  "GetCertificateForTenant 3 scenario_world = (Inr None, scenario_world\<lparr>db_calls := 1\<rparr>)
 \<and> GetCertificateForTenant 4 (failing_at 0) =
     (Inl (StorageError ''database is locked''), (failing_at 0)\<lparr>db_calls := 1\<rparr>)
 \<and> GetCertificateForTenant 4 scenario_world =
     (Inr (Some bob_certificate), scenario_world\<lparr>db_calls := 1\<rparr>)"
proof -
  have none: "db_GetCertificateByOwnerID 3 scenario_world =
      (Inl ErrRecordNotFound, scenario_world\<lparr>db_calls := 1\<rparr>)"
    by (simp add: scenario_defs db_defs)
  have failed: "db_GetCertificateByOwnerID 4 (failing_at 0) =
      (Inl (StorageError ''database is locked''), (failing_at 0)\<lparr>db_calls := 1\<rparr>)"
    by (simp add: scenario_defs failing_at_def db_defs)
  have found: "db_GetCertificateByOwnerID 4 scenario_world =
      (Inr bob_certificate, scenario_world\<lparr>db_calls := 1\<rparr>)"
    by (simp add: scenario_defs db_defs)
  show ?thesis
    using none failed found
      GetCertificateForTenant_cases
        [of 3 scenario_world ErrRecordNotFound "scenario_world\<lparr>db_calls := 1\<rparr>"]
      GetCertificateForTenant_cases
        [of 4 "failing_at 0" "StorageError ''database is locked''"
            "(failing_at 0)\<lparr>db_calls := 1\<rparr>"]
      GetCertificateForTenant_cases
        [of 4 scenario_world _ "scenario_world\<lparr>db_calls := 1\<rparr>" bob_certificate]
    by simp
qed

subsection \<open>Revoking a certificate\<close>

text \<open>
  C9. For every certificate identifier whose lookup succeeds, on a storage that meets no
  failure, \<^verbatim>\<open>RevokeCertificate\<close> succeeds whatever the certificate's status was: the
  stored certificate becomes the one found with its status set to revoked and every other
  field as before, in a single write; no other certificate and no request changes. Revoking
  the same certificate again succeeds and leaves the table of certificates as the first
  revocation left it.
\<close>

theorem Revoke_certificate:
  "(storage_healthy 2 w \<and> stored_certificate w certID = Some c \<longrightarrow>
      fst (RevokeCertificate certID w) = None
    \<and> stored_certificate (snd (RevokeCertificate certID w)) certID =
        Some (c\<lparr>cert_Status := CertificateStatusRevoked\<rparr>)
    \<and> (\<forall>i. i \<noteq> certID \<longrightarrow>
          stored_certificate (snd (RevokeCertificate certID w)) i = stored_certificate w i)
    \<and> cert_requests (snd (RevokeCertificate certID w)) = cert_requests w
    \<and> journal (snd (RevokeCertificate certID w)) = journal w @ [SaveCertificate certID])
 \<and> (storage_healthy 4 w \<and> stored_certificate w certID = Some c \<longrightarrow>
      fst (RevokeCertificate certID (snd (RevokeCertificate certID w))) = None
    \<and> certificates (snd (RevokeCertificate certID (snd (RevokeCertificate certID w)))) =
        certificates (snd (RevokeCertificate certID w)))"
proof (intro conjI impI)
  assume "storage_healthy 2 w \<and> stored_certificate w certID = Some c"
  then have healthy: "storage_healthy 2 w" and stored: "stored_certificate w certID = Some c"
    by simp_all
  note run = Revoke_run [OF healthy stored]
  show "fst (RevokeCertificate certID w) = None"
    by (simp add: run)
  show "stored_certificate (snd (RevokeCertificate certID w)) certID =
        Some (c\<lparr>cert_Status := CertificateStatusRevoked\<rparr>)"
    using stored stored_certificate_ID [OF stored]
    by (simp add: run stored_certificate_def find_replace_same)
  show "\<forall>i. i \<noteq> certID \<longrightarrow>
          stored_certificate (snd (RevokeCertificate certID w)) i = stored_certificate w i"
    using stored_certificate_ID [OF stored]
    by (simp add: run stored_certificate_def find_replace_other)
  show "cert_requests (snd (RevokeCertificate certID w)) = cert_requests w"
    by (simp add: run)
  show "journal (snd (RevokeCertificate certID w)) = journal w @ [SaveCertificate certID]"
    by (simp add: run)
next
  assume a: "storage_healthy 4 w \<and> stored_certificate w certID = Some c"
  then have stored: "stored_certificate w certID = Some c"
    by simp
  from a have healthy: "storage_healthy 2 w"
    and f3: "fault_plan w (Suc (Suc (db_calls w))) = None"
    and f4: "fault_plan w (Suc (Suc (Suc (db_calls w)))) = None"
    by (simp_all add: healthy4D)
  note run = Revoke_run [OF healthy stored]
  let ?w1 = "snd (RevokeCertificate certID w)"
  let ?c1 = "c\<lparr>cert_Status := CertificateStatusRevoked\<rparr>"
  have id1: "cert_ID ?c1 = certID"
    using stored_certificate_ID [OF stored] by simp
  have healthy1: "storage_healthy 2 ?w1"
    using f3 f4 by (simp add: run storage_healthy_def less_Suc_eq numeral_2_eq_2)
  have stored1: "stored_certificate ?w1 certID = Some ?c1"
    using stored id1 by (simp add: run stored_certificate_def find_replace_same)
  note run1 = Revoke_run [OF healthy1 stored1]
  show "fst (RevokeCertificate certID ?w1) = None"
    by (simp add: run1)
  show "certificates (snd (RevokeCertificate certID ?w1)) = certificates ?w1"
    using id1 replace_twice [of cert_ID ?c1 certID "certificates w"]
    by (simp add: run1) (simp add: run)
qed

text \<open>
  On the concrete store: bob's expiring certificate is revoked, and revoking carol's
  certificate, revoked already, succeeds and changes no row.
\<close>

theorem Revoke_certificate_witness:
  "storage_healthy 4 scenario_world
 \<and> stored_certificate scenario_world 1 = Some bob_certificate
 \<and> fst (RevokeCertificate 1 scenario_world) = None
 \<and> certificates (snd (RevokeCertificate 1 scenario_world)) =
     [bob_certificate\<lparr>cert_Status := ''revoked''\<rparr>, carol_certificate]
 \<and> fst (RevokeCertificate 1 (snd (RevokeCertificate 1 scenario_world))) = None
 \<and> certificates (snd (RevokeCertificate 1 (snd (RevokeCertificate 1 scenario_world)))) =
     [bob_certificate\<lparr>cert_Status := ''revoked''\<rparr>, carol_certificate]
 \<and> stored_certificate scenario_world 2 = Some carol_certificate
 \<and> fst (RevokeCertificate 2 scenario_world) = None
 \<and> stored_certificate (snd (RevokeCertificate 2 scenario_world)) 2 = Some carol_certificate"
proof -
  have h2: "storage_healthy 2 scenario_world" and h4: "storage_healthy 4 scenario_world"
    by (simp_all add: storage_healthy_def scenario_world_def)
  have bob: "stored_certificate scenario_world 1 = Some bob_certificate"
    by (simp add: stored_certificate_def scenario_defs)
  have carol: "stored_certificate scenario_world 2 = Some carol_certificate"
    by (simp add: stored_certificate_def scenario_defs)
  have table: "certificates (snd (RevokeCertificate 1 scenario_world)) =
      [bob_certificate\<lparr>cert_Status := ''revoked''\<rparr>, carol_certificate]"
    by (simp add: scenario_defs RevokeCertificate_def db_defs status_defs)
  have same: "carol_certificate\<lparr>cert_Status := CertificateStatusRevoked\<rparr> = carol_certificate"
    by (simp add: carol_certificate_def status_defs)
  show ?thesis
    using h2 h4 bob carol table same
      Revoke_certificate [of scenario_world 1 bob_certificate]
      Revoke_certificate [of scenario_world 2 carol_certificate]
    by simp
qed

subsection \<open>A tenant's request for a certificate\<close>

text \<open>
  What the duplicate check does. \<^verbatim>\<open>CreateTenantCertificateRequest\<close> fails with the
  error "certificate already exists for user" if and only if the lookup of the user's
  certificate finds one whose status is valid or expiring. On a storage that meets no
  failure, that is: if and only if the certificate of the user that the owner lookup yields
  has status valid or expiring. Only in a store with one certificate per owner at most is
  that the same as: some stored certificate of the user has status valid or expiring.
\<close>

lemma duplicate_certificate_error:
  "(fst (CreateTenantCertificateRequest user reqType reason w) =
      Inl (Errorf ''certificate already exists for user'')
    \<longleftrightarrow> (\<exists>c. fst (db_GetCertificateByOwnerID (user_ID user) w) = Inr c
            \<and> (cert_Status c = CertificateStatusValid
               \<or> cert_Status c = CertificateStatusExpiring)))
 \<and> (storage_healthy 1 w \<longrightarrow>
      (fst (CreateTenantCertificateRequest user reqType reason w) =
         Inl (Errorf ''certificate already exists for user'')
       \<longleftrightarrow> blocking_certificate w (user_ID user)))
 \<and> (storage_healthy 1 w \<and> distinct (map cert_OwnerID (certificates w)) \<longrightarrow>
      (fst (CreateTenantCertificateRequest user reqType reason w) =
         Inl (Errorf ''certificate already exists for user'')
       \<longleftrightarrow> (\<exists>c\<in>set (certificates w). cert_OwnerID c = user_ID user
              \<and> (cert_Status c = CertificateStatusValid
                 \<or> cert_Status c = CertificateStatusExpiring))))"
proof -
  have unique: "blocking_certificate w (user_ID user)
      \<longleftrightarrow> (\<exists>c\<in>set (certificates w). cert_OwnerID c = user_ID user
              \<and> (cert_Status c = CertificateStatusValid
                 \<or> cert_Status c = CertificateStatusExpiring))"
    if owners: "distinct (map cert_OwnerID (certificates w))"
  proof
    assume "blocking_certificate w (user_ID user)"
    then obtain c where c: "owner_certificate w (user_ID user) = Some c"
      and status: "cert_Status c = CertificateStatusValid
                   \<or> cert_Status c = CertificateStatusExpiring"
      by (auto simp: blocking_certificate_def split: option.splits)
    from c have "c \<in> set (certificates w) \<and> cert_OwnerID c = user_ID user"
      by (simp add: owner_certificate_def find_distinct_key [OF owners])
    with status show "\<exists>c\<in>set (certificates w). cert_OwnerID c = user_ID user
              \<and> (cert_Status c = CertificateStatusValid
                 \<or> cert_Status c = CertificateStatusExpiring)"
      by blast
  next
    assume "\<exists>c\<in>set (certificates w). cert_OwnerID c = user_ID user
              \<and> (cert_Status c = CertificateStatusValid
                 \<or> cert_Status c = CertificateStatusExpiring)"
    then obtain c where "c \<in> set (certificates w) \<and> cert_OwnerID c = user_ID user"
      and status: "cert_Status c = CertificateStatusValid
                   \<or> cert_Status c = CertificateStatusExpiring"
      by blast
    then have "owner_certificate w (user_ID user) = Some c"
      by (simp add: owner_certificate_def find_distinct_key [OF owners])
    with status show "blocking_certificate w (user_ID user)"
      by (simp add: blocking_certificate_def)
  qed
  have general: "fst (CreateTenantCertificateRequest user reqType reason w) =
      Inl (Errorf ''certificate already exists for user'')
    \<longleftrightarrow> (\<exists>c. fst (db_GetCertificateByOwnerID (user_ID user) w) = Inr c
            \<and> (cert_Status c = CertificateStatusValid
               \<or> cert_Status c = CertificateStatusExpiring))"
    by (auto simp: CreateTenantCertificateRequest_def db_CreateCertificateRequest_def
        db_begin_def Let_def
        split: prod.splits sum.splits option.splits if_splits)
  have healthy: "fst (db_GetCertificateByOwnerID (user_ID user) w) =
      (case owner_certificate w (user_ID user) of
         None \<Rightarrow> Inl ErrRecordNotFound | Some c \<Rightarrow> Inr c)"
    if "storage_healthy 1 w"
    using that by (simp add: GetCertificateByOwnerID_healthy storage_healthy_def)
  have store: "fst (CreateTenantCertificateRequest user reqType reason w) =
         Inl (Errorf ''certificate already exists for user'')
       \<longleftrightarrow> blocking_certificate w (user_ID user)"
    if "storage_healthy 1 w"
    using general healthy [OF that]
    by (auto simp: blocking_certificate_def split: option.splits)
  show ?thesis
    using general store unique by simp
qed

text \<open>
  C3. The claim: for every user, \<^verbatim>\<open>CreateTenantCertificateRequest\<close> fails with the
  error "certificate already exists for user" if and only if a certificate owned by the user
  exists whose status is valid or expiring. The source's comment says the same of its check
  ("whether the tenant already has a valid certificate"), but the check reads the one
  certificate the owner lookup returns. On the store the service itself reaches from the
  concrete store by revoking bob's certificate, taking his new request and approving it, bob
  owns the valid certificate 3 behind the revoked certificate 1, and his next request is
  not refused: it is created, as request 10.
\<close>

theorem duplicate_certificate_missed:
  "certificates
     (run [Revoke 1, TenantRequest bob ''client'' ''renewal'', Approve 9 admin] scenario_world) =
     [bob_certificate\<lparr>cert_Status := ''revoked''\<rparr>,
      carol_certificate,
      \<lparr>cert_ID = 3, cert_Name = ''bob-client-cert'', cert_Type = ''client'',
       cert_Status = ''valid'', cert_Owner = ''bob'', cert_OwnerID = 4, cert_Content = '''',
       cert_IssuedDate = \<lparr>Year = 2026, Month = 11, Day = 1, Nanos = 0\<rparr>,
       cert_ExpirationDate = \<lparr>Year = 2027, Month = 11, Day = 1, Nanos = 1\<rparr>\<rparr>]
 \<and> user_ID bob = 4
 \<and> fst (CreateTenantCertificateRequest bob ''client'' ''another''
          (run [Revoke 1, TenantRequest bob ''client'' ''renewal'', Approve 9 admin]
             scenario_world)) =
     Inr \<lparr>req_ID = 10, req_UserName = ''bob'', req_UserID = 4, req_Type = ''client'',
          req_Status = ''pending'', req_Reason = ''another'', req_ApprovedBy = '''',
          req_ApprovedAt = None, req_RejectedBy = '''', req_RejectedAt = None,
          req_RejectedReason = ''''\<rparr>"
  by (simp add: scenario_defs admin_def bob_def
      CreateTenantCertificateRequest_def ApproveAndCreateCertificate_def RevokeCertificate_def
      db_defs IsPending_def status_defs AddDate_def leap_year_def Let_def)

text \<open>
  C4. For every user whose certificate, if any, does not block, on a storage that meets no
  failure: if the store holds a pending request of the user,
  \<^verbatim>\<open>CreateTenantCertificateRequest\<close> fails with the error "certificate request is pending
  for user" and writes nothing; otherwise it stores and returns exactly one new request,
  with the user's name and identifier, the given type and reason, and status pending.
\<close>

theorem tenant_request_creation:
  "(storage_healthy 2 w \<and> \<not> blocking_certificate w (user_ID user)
      \<and> (\<exists>r\<in>set (cert_requests w). req_UserID r = user_ID user \<and> IsPending r) \<longrightarrow>
      fst (CreateTenantCertificateRequest user reqType reason w) =
        Inl (Errorf ''certificate request is pending for user'')
    \<and> cert_requests (snd (CreateTenantCertificateRequest user reqType reason w)) = cert_requests w
    \<and> certificates (snd (CreateTenantCertificateRequest user reqType reason w)) = certificates w
    \<and> journal (snd (CreateTenantCertificateRequest user reqType reason w)) = journal w)
 \<and> (storage_healthy 3 w \<and> \<not> blocking_certificate w (user_ID user)
      \<and> \<not> (\<exists>r\<in>set (cert_requests w). req_UserID r = user_ID user \<and> IsPending r) \<longrightarrow>
      fst (CreateTenantCertificateRequest user reqType reason w) =
        Inr \<lparr>req_ID = next_request_id w,
             req_UserName = user_Username user,
             req_UserID = user_ID user,
             req_Type = reqType,
             req_Status = CertificateStatusPending,
             req_Reason = reason,
             req_ApprovedBy = '''',
             req_ApprovedAt = None,
             req_RejectedBy = '''',
             req_RejectedAt = None,
             req_RejectedReason = ''''\<rparr>
    \<and> cert_requests (snd (CreateTenantCertificateRequest user reqType reason w)) =
        cert_requests w @
          [\<lparr>req_ID = next_request_id w,
            req_UserName = user_Username user,
            req_UserID = user_ID user,
            req_Type = reqType,
            req_Status = CertificateStatusPending,
            req_Reason = reason,
            req_ApprovedBy = '''',
            req_ApprovedAt = None,
            req_RejectedBy = '''',
            req_RejectedAt = None,
            req_RejectedReason = ''''\<rparr>]
    \<and> certificates (snd (CreateTenantCertificateRequest user reqType reason w)) = certificates w
    \<and> journal (snd (CreateTenantCertificateRequest user reqType reason w)) =
        journal w @ [InsertRequest (next_request_id w)])"
proof (intro conjI impI)
  assume a: "storage_healthy 2 w \<and> \<not> blocking_certificate w (user_ID user)
      \<and> (\<exists>r\<in>set (cert_requests w). req_UserID r = user_ID user \<and> IsPending r)"
  then have found: "find (\<lambda>r. req_UserID r = user_ID user \<and> req_Status r = CertificateStatusPending)
      (cert_requests w) \<noteq> None"
    by (auto simp: find_None_iff IsPending_def)
  from a have healthy: "storage_healthy 2 w" and free: "\<not> blocking_certificate w (user_ID user)"
    by simp_all
  have run: "CreateTenantCertificateRequest user reqType reason w =
      (Inl (Errorf ''certificate request is pending for user''),
       w\<lparr>db_calls := Suc (Suc (db_calls w))\<rparr>)"
    using found free
    by (auto simp: CreateTenantCertificateRequest_def GetCertificateByOwnerID_healthy
        GetPendingCertificateRequestByUserID_healthy healthy2D [OF healthy]
        blocking_certificate_def split: option.splits)
  show "fst (CreateTenantCertificateRequest user reqType reason w) =
        Inl (Errorf ''certificate request is pending for user'')"
    by (simp add: run)
  show "cert_requests (snd (CreateTenantCertificateRequest user reqType reason w)) = cert_requests w"
    by (simp add: run)
  show "certificates (snd (CreateTenantCertificateRequest user reqType reason w)) = certificates w"
    by (simp add: run)
  show "journal (snd (CreateTenantCertificateRequest user reqType reason w)) = journal w"
    by (simp add: run)
next
  assume a: "storage_healthy 3 w \<and> \<not> blocking_certificate w (user_ID user)
      \<and> \<not> (\<exists>r\<in>set (cert_requests w). req_UserID r = user_ID user \<and> IsPending r)"
  then have none: "find (\<lambda>r. req_UserID r = user_ID user \<and> req_Status r = CertificateStatusPending)
      (cert_requests w) = None"
    by (auto simp: find_None_iff IsPending_def)
  from a have healthy: "storage_healthy 3 w" and free: "\<not> blocking_certificate w (user_ID user)"
    by simp_all
  have run: "CreateTenantCertificateRequest user reqType reason w =
      (Inr \<lparr>req_ID = next_request_id w,
             req_UserName = user_Username user,
             req_UserID = user_ID user,
             req_Type = reqType,
             req_Status = CertificateStatusPending,
             req_Reason = reason,
             req_ApprovedBy = '''',
             req_ApprovedAt = None,
             req_RejectedBy = '''',
             req_RejectedAt = None,
             req_RejectedReason = ''''\<rparr>,
       w\<lparr>cert_requests := cert_requests w @
            [\<lparr>req_ID = next_request_id w,
              req_UserName = user_Username user,
              req_UserID = user_ID user,
              req_Type = reqType,
              req_Status = CertificateStatusPending,
              req_Reason = reason,
              req_ApprovedBy = '''',
              req_ApprovedAt = None,
              req_RejectedBy = '''',
              req_RejectedAt = None,
              req_RejectedReason = ''''\<rparr>],
          next_request_id := Suc (next_request_id w),
          journal := journal w @ [InsertRequest (next_request_id w)],
          db_calls := Suc (Suc (Suc (db_calls w)))\<rparr>)"
    using none free
    by (auto simp: CreateTenantCertificateRequest_def GetCertificateByOwnerID_healthy
        GetPendingCertificateRequestByUserID_healthy CreateCertificateRequest_healthy
        healthy3D [OF healthy] blocking_certificate_def split: option.splits)
  show "fst (CreateTenantCertificateRequest user reqType reason w) =
        Inr \<lparr>req_ID = next_request_id w,
             req_UserName = user_Username user,
             req_UserID = user_ID user,
             req_Type = reqType,
             req_Status = CertificateStatusPending,
             req_Reason = reason,
             req_ApprovedBy = '''',
             req_ApprovedAt = None,
             req_RejectedBy = '''',
             req_RejectedAt = None,
             req_RejectedReason = ''''\<rparr>"
    by (simp add: run)
  show "cert_requests (snd (CreateTenantCertificateRequest user reqType reason w)) =
        cert_requests w @
          [\<lparr>req_ID = next_request_id w,
            req_UserName = user_Username user,
            req_UserID = user_ID user,
            req_Type = reqType,
            req_Status = CertificateStatusPending,
            req_Reason = reason,
            req_ApprovedBy = '''',
            req_ApprovedAt = None,
            req_RejectedBy = '''',
            req_RejectedAt = None,
            req_RejectedReason = ''''\<rparr>]"
    by (simp add: run)
  show "certificates (snd (CreateTenantCertificateRequest user reqType reason w)) = certificates w"
    by (simp add: run)
  show "journal (snd (CreateTenantCertificateRequest user reqType reason w)) =
        journal w @ [InsertRequest (next_request_id w)]"
    by (simp add: run)
qed

text \<open>
  On the concrete store: alice, who has the pending request 7, is refused; carol, whose
  only request was rejected, gets the new request 9.
\<close>

theorem tenant_request_creation_witness:
  "storage_healthy 3 scenario_world
 \<and> \<not> blocking_certificate scenario_world (user_ID alice)
 \<and> fst (CreateTenantCertificateRequest alice ''client'' ''second'' scenario_world) =
     Inl (Errorf ''certificate request is pending for user'')
 \<and> cert_requests (snd (CreateTenantCertificateRequest alice ''client'' ''second'' scenario_world)) =
     [alice_request, rejected_request]
 \<and> \<not> blocking_certificate scenario_world (user_ID carol)
 \<and> fst (CreateTenantCertificateRequest carol ''server'' ''lost key'' scenario_world) =
     Inr \<lparr>req_ID = 9, req_UserName = ''carol'', req_UserID = 5, req_Type = ''server'',
          req_Status = ''pending'', req_Reason = ''lost key'', req_ApprovedBy = '''',
          req_ApprovedAt = None, req_RejectedBy = '''', req_RejectedAt = None,
          req_RejectedReason = ''''\<rparr>
 \<and> cert_requests (snd (CreateTenantCertificateRequest carol ''server'' ''lost key'' scenario_world)) =
     [alice_request, rejected_request,
      \<lparr>req_ID = 9, req_UserName = ''carol'', req_UserID = 5, req_Type = ''server'',
       req_Status = ''pending'', req_Reason = ''lost key'', req_ApprovedBy = '''',
       req_ApprovedAt = None, req_RejectedBy = '''', req_RejectedAt = None,
       req_RejectedReason = ''''\<rparr>]"
proof -
  have h2: "storage_healthy 2 scenario_world" and h3: "storage_healthy 3 scenario_world"
    by (simp_all add: storage_healthy_def scenario_world_def)
  have free_alice: "\<not> blocking_certificate scenario_world (user_ID alice)"
    by (simp add: scenario_defs alice_def blocking_certificate_def owner_certificate_def
        status_defs)
  have free_carol: "\<not> blocking_certificate scenario_world (user_ID carol)"
    by (simp add: scenario_defs carol_def blocking_certificate_def owner_certificate_def
        status_defs)
  have pending_alice:
    "\<exists>r\<in>set (cert_requests scenario_world). req_UserID r = user_ID alice \<and> IsPending r"
    by (simp add: scenario_defs alice_def IsPending_def status_defs)
  have pending_carol:
    "\<not> (\<exists>r\<in>set (cert_requests scenario_world). req_UserID r = user_ID carol \<and> IsPending r)"
    by (simp add: scenario_defs carol_def IsPending_def status_defs)
  have table: "cert_requests scenario_world = [alice_request, rejected_request]"
    "next_request_id scenario_world = 9"
    by (simp_all add: scenario_world_def)
  have users: "user_ID carol = 5" "user_Username carol = ''carol''"
    by (simp_all add: carol_def)
  show ?thesis
    using h2 h3 free_alice free_carol pending_alice pending_carol
      tenant_request_creation [of scenario_world alice "''client''" "''second''"]
      tenant_request_creation [of scenario_world carol "''server''" "''lost key''"]
    by (simp add: table users status_defs)
qed

subsection \<open>Approving a request\<close>

text \<open>
  What an approval does. For every stored request whose status is pending, on a storage
  that meets no failure, \<^verbatim>\<open>ApproveAndCreateCertificate\<close> succeeds and stores exactly
  one new certificate, the one it returns: its name is the request's user name, a dash, the
  request's type and "-cert"; its type, owner and owner identifier are the request's; its
  status is valid; its content is empty; its issued date is the first reading of the clock
  and its expiration date is one year after the second reading of the clock. The stored
  request becomes the request with status valid, the approver's user name and the third
  reading of the clock as approval timestamp; no other request changes; the certificate
  insert and the request update are the two writes made.
\<close>

lemma Approve_pending:
  assumes healthy: "storage_healthy 3 w"
    and stored: "stored_request w reqID = Some req"
    and pending: "IsPending req"
  shows "fst (ApproveAndCreateCertificate reqID adminUser w) =
           Inr \<lparr>cert_ID = next_certificate_id w,
                cert_Name = req_UserName req @ ''-'' @ req_Type req @ ''-cert'',
                cert_Type = req_Type req,
                cert_Status = CertificateStatusValid,
                cert_Owner = req_UserName req,
                cert_OwnerID = req_UserID req,
                cert_Content = '''',
                cert_IssuedDate = clock w (clock_reads w),
                cert_ExpirationDate = AddDate 1 (clock w (Suc (clock_reads w)))\<rparr>
       \<and> certificates (snd (ApproveAndCreateCertificate reqID adminUser w)) =
           certificates w @
             [\<lparr>cert_ID = next_certificate_id w,
               cert_Name = req_UserName req @ ''-'' @ req_Type req @ ''-cert'',
               cert_Type = req_Type req,
               cert_Status = CertificateStatusValid,
               cert_Owner = req_UserName req,
               cert_OwnerID = req_UserID req,
               cert_Content = '''',
               cert_IssuedDate = clock w (clock_reads w),
               cert_ExpirationDate = AddDate 1 (clock w (Suc (clock_reads w)))\<rparr>]
       \<and> stored_request (snd (ApproveAndCreateCertificate reqID adminUser w)) reqID =
           Some (req\<lparr>req_Status := CertificateStatusValid,
                     req_ApprovedBy := user_Username adminUser,
                     req_ApprovedAt := Some (clock w (Suc (Suc (clock_reads w))))\<rparr>)
       \<and> (\<forall>i. i \<noteq> reqID \<longrightarrow>
             stored_request (snd (ApproveAndCreateCertificate reqID adminUser w)) i =
             stored_request w i)
       \<and> journal (snd (ApproveAndCreateCertificate reqID adminUser w)) =
           journal w @ [InsertCertificate (next_certificate_id w), SaveRequest reqID]"
proof -
  note run = Approve_pending_run [OF healthy stored pending, of adminUser]
  have same: "stored_request (snd (ApproveAndCreateCertificate reqID adminUser w)) reqID =
           Some (req\<lparr>req_Status := CertificateStatusValid,
                     req_ApprovedBy := user_Username adminUser,
                     req_ApprovedAt := Some (clock w (Suc (Suc (clock_reads w))))\<rparr>)"
    using stored stored_request_ID [OF stored]
    by (simp add: run stored_request_def find_replace_same)
  have other: "stored_request (snd (ApproveAndCreateCertificate reqID adminUser w)) i =
             stored_request w i" if "i \<noteq> reqID" for i
    using that stored_request_ID [OF stored]
    by (simp add: run stored_request_def find_replace_other)
  show ?thesis
    using same other by (simp add: run)
qed

text \<open>
  C1. The claim: for every request whose status is pending,
  \<^verbatim>\<open>ApproveAndCreateCertificate\<close> succeeds and produces one new certificate, named
  after the request's user and type, with the request's type and owner, status valid, empty
  content, and an expiration date equal to its issued date plus one year; and the stored
  request becomes valid with the approver and an approval timestamp. The source, whose
  comment gives the certificate a validity of one year, reads the clock once for the issued
  date and once more for the expiration date. In the specification's scenario (request 7
  of alice for a client certificate, approved by the administrator), with a clock that
  advances by one nanosecond between the two readings, all of the claim holds but the last
  of the certificate's fields: its expiration date is not its issued date plus one year.
\<close>

theorem Approve_expiration_divergence:
  "stored_request scenario_world 7 = Some alice_request
 \<and> IsPending alice_request
 \<and> fst (ApproveAndCreateCertificate 7 admin scenario_world) =
     Inr \<lparr>cert_ID = 3, cert_Name = ''alice-client-cert'', cert_Type = ''client'',
          cert_Status = ''valid'', cert_Owner = ''alice'', cert_OwnerID = 3,
          cert_Content = '''',
          cert_IssuedDate = \<lparr>Year = 2026, Month = 11, Day = 1, Nanos = 0\<rparr>,
          cert_ExpirationDate = \<lparr>Year = 2027, Month = 11, Day = 1, Nanos = 1\<rparr>\<rparr>
 \<and> stored_request (snd (ApproveAndCreateCertificate 7 admin scenario_world)) 7 =
     Some (alice_request
            \<lparr>req_Status := ''valid'', req_ApprovedBy := ''admin'',
             req_ApprovedAt := Some \<lparr>Year = 2026, Month = 11, Day = 1, Nanos = 2\<rparr>\<rparr>)
 \<and> AddDate 1 \<lparr>Year = 2026, Month = 11, Day = 1, Nanos = 0\<rparr> =
     \<lparr>Year = 2027, Month = 11, Day = 1, Nanos = 0\<rparr>"
  by (simp add: scenario_defs admin_def ApproveAndCreateCertificate_def
      db_defs stored_request_def IsPending_def status_defs AddDate_def leap_year_def Let_def)

text \<open>
  C2. For every stored request whose status is not pending, once the lookup has found it,
  \<^verbatim>\<open>ApproveAndCreateCertificate\<close> fails with the error "request is not pending, current
  status: " followed by the status, and leaves the store as it was: no certificate is
  created and no request is modified (only the count of storage calls moves on).
\<close>

theorem Approve_not_pending:
  assumes "storage_healthy 1 w" and "stored_request w reqID = Some req" and "\<not> IsPending req"
  shows "ApproveAndCreateCertificate reqID adminUser w =
           (Inl (Errorf (''request is not pending, current status: '' @ req_Status req)),
            w\<lparr>db_calls := Suc (db_calls w)\<rparr>)"
  using assms
  by (simp add: ApproveAndCreateCertificate_def GetCertificateRequestByID_healthy storage_healthy_def)

text \<open>The specification's scenario: request 8, rejected before.\<close>

theorem Approve_not_pending_witness:
  "storage_healthy 1 scenario_world
 \<and> stored_request scenario_world 8 = Some rejected_request
 \<and> \<not> IsPending rejected_request
 \<and> ApproveAndCreateCertificate 8 admin scenario_world =
     (Inl (Errorf ''request is not pending, current status: rejected''),
      scenario_world\<lparr>db_calls := 1\<rparr>)"
proof -
  have healthy: "storage_healthy 1 scenario_world"
    by (simp add: storage_healthy_def scenario_world_def)
  have stored: "stored_request scenario_world 8 = Some rejected_request"
    by (simp add: stored_request_def scenario_defs)
  have settled: "\<not> IsPending rejected_request"
    by (simp add: IsPending_def rejected_request_def status_defs)
  show ?thesis
    using healthy stored settled Approve_not_pending [OF healthy stored settled, of admin]
    by (simp add: rejected_request_def scenario_world_def)
qed

text \<open>
  C6. The certificate insert and the request update of
  \<^verbatim>\<open>ApproveAndCreateCertificate\<close> are two separate writes: in every run on a stored
  pending request where the lookup and the insert succeed and the update fails, the
  function returns the error of the update (wrapped as "failed to update request") while
  the new certificate stays in the store and the stored request is as before, still
  pending; the insert is the only write made.
\<close>

theorem Approve_update_fails:
  assumes stored: "stored_request w reqID = Some req"
    and pending: "IsPending req"
    and f1: "fault_plan w (db_calls w) = None"
    and f2: "fault_plan w (db_calls w + 1) = None"
    and f3: "fault_plan w (db_calls w + 2) = Some msg"
  shows "fst (ApproveAndCreateCertificate reqID adminUser w) =
           Inl (Wrap (StorageError msg) ''failed to update request'')
       \<and> certificates (snd (ApproveAndCreateCertificate reqID adminUser w)) =
           certificates w @
             [\<lparr>cert_ID = next_certificate_id w,
               cert_Name = req_UserName req @ ''-'' @ req_Type req @ ''-cert'',
               cert_Type = req_Type req,
               cert_Status = CertificateStatusValid,
               cert_Owner = req_UserName req,
               cert_OwnerID = req_UserID req,
               cert_Content = '''',
               cert_IssuedDate = clock w (clock_reads w),
               cert_ExpirationDate = AddDate 1 (clock w (Suc (clock_reads w)))\<rparr>]
       \<and> cert_requests (snd (ApproveAndCreateCertificate reqID adminUser w)) = cert_requests w
       \<and> stored_request (snd (ApproveAndCreateCertificate reqID adminUser w)) reqID = Some req
       \<and> req_Status req = CertificateStatusPending
       \<and> journal (snd (ApproveAndCreateCertificate reqID adminUser w)) =
           journal w @ [InsertCertificate (next_certificate_id w)]"
  using stored pending f1 f2 f3
  by (simp add: ApproveAndCreateCertificate_def GetCertificateRequestByID_healthy
      time_Now_def CreateCertificate_healthy UpdateCertificateRequest_faulty Let_def
      stored_request_def IsPending_def)

text \<open>Such a run: the third storage call of the approval of request 7 fails.\<close>

theorem Approve_update_fails_witness:
  "stored_request (failing_at 2) 7 = Some alice_request
 \<and> IsPending alice_request
 \<and> fst (ApproveAndCreateCertificate 7 admin (failing_at 2)) =
     Inl (Wrap (StorageError ''database is locked'') ''failed to update request'')
 \<and> certificates (snd (ApproveAndCreateCertificate 7 admin (failing_at 2))) =
     [bob_certificate, carol_certificate,
      \<lparr>cert_ID = 3, cert_Name = ''alice-client-cert'', cert_Type = ''client'',
       cert_Status = ''valid'', cert_Owner = ''alice'', cert_OwnerID = 3,
       cert_Content = '''',
       cert_IssuedDate = \<lparr>Year = 2026, Month = 11, Day = 1, Nanos = 0\<rparr>,
       cert_ExpirationDate = \<lparr>Year = 2027, Month = 11, Day = 1, Nanos = 1\<rparr>\<rparr>]
 \<and> stored_request (snd (ApproveAndCreateCertificate 7 admin (failing_at 2))) 7 =
     Some alice_request
 \<and> req_Status alice_request = ''pending''
 \<and> journal (snd (ApproveAndCreateCertificate 7 admin (failing_at 2))) = [InsertCertificate 3]"
proof -
  have stored: "stored_request (failing_at 2) 7 = Some alice_request"
    by (simp add: stored_request_def failing_at_def scenario_defs)
  have pending: "IsPending alice_request"
    by (simp add: IsPending_def alice_request_def status_defs)
  have f1: "fault_plan (failing_at 2) (db_calls (failing_at 2)) = None"
    and f2: "fault_plan (failing_at 2) (db_calls (failing_at 2) + 1) = None"
    and f3: "fault_plan (failing_at 2) (db_calls (failing_at 2) + 2) = Some ''database is locked''"
    by (simp_all add: failing_at_def scenario_world_def)
  have facts: "next_certificate_id (failing_at 2) = 3" "journal (failing_at 2) = []"
    "certificates (failing_at 2) = [bob_certificate, carol_certificate]"
    "clock (failing_at 2) = scenario_clock" "clock_reads (failing_at 2) = 0"
    "req_UserName alice_request = ''alice''" "req_Type alice_request = ''client''"
    "req_UserID alice_request = 3" "req_Status alice_request = ''pending''"
    by (simp_all add: failing_at_def scenario_world_def alice_request_def)
  show ?thesis
    using stored pending Approve_update_fails [OF stored pending f1 f2 f3, of admin]
    by (simp add: facts scenario_clock_def status_defs AddDate_def leap_year_def)
qed

subsection \<open>Rejecting a request\<close>

text \<open>
  C5. For every stored request whose status is pending, on a storage that meets no
  failure, \<^verbatim>\<open>RejectCertificateRequest\<close> succeeds: the stored request becomes the request
  with status rejected, the rejecter's user name, the reading of the clock as rejection
  timestamp and the given reason; this is a single write; no other request changes and no
  certificate is created. For a stored request whose status is not pending it fails, with
  the error "request is not pending, current status: " followed by the status, and leaves
  the store as it was.
\<close>

theorem Reject_request:
  "(storage_healthy 2 w \<and> stored_request w reqID = Some req \<and> IsPending req \<longrightarrow>
      fst (RejectCertificateRequest reqID adminUser reason w) = None
    \<and> stored_request (snd (RejectCertificateRequest reqID adminUser reason w)) reqID =
        Some (req\<lparr>req_Status := CertificateStatusRejected,
                  req_RejectedBy := user_Username adminUser,
                  req_RejectedAt := Some (clock w (clock_reads w)),
                  req_RejectedReason := reason\<rparr>)
    \<and> (\<forall>i. i \<noteq> reqID \<longrightarrow>
          stored_request (snd (RejectCertificateRequest reqID adminUser reason w)) i =
          stored_request w i)
    \<and> journal (snd (RejectCertificateRequest reqID adminUser reason w)) =
        journal w @ [SaveRequest reqID]
    \<and> certificates (snd (RejectCertificateRequest reqID adminUser reason w)) = certificates w)
 \<and> (storage_healthy 1 w \<and> stored_request w reqID = Some req \<and> \<not> IsPending req \<longrightarrow>
      RejectCertificateRequest reqID adminUser reason w =
        (Some (Errorf (''request is not pending, current status: '' @ req_Status req)),
         w\<lparr>db_calls := Suc (db_calls w)\<rparr>))"
proof (intro conjI impI)
  assume a: "storage_healthy 2 w \<and> stored_request w reqID = Some req \<and> IsPending req"
  then have healthy: "storage_healthy 2 w" and stored: "stored_request w reqID = Some req"
    and pending: "IsPending req"
    by simp_all
  note run = Reject_pending_run [OF healthy stored pending, of adminUser reason]
  show "fst (RejectCertificateRequest reqID adminUser reason w) = None"
    by (simp add: run)
  show "stored_request (snd (RejectCertificateRequest reqID adminUser reason w)) reqID =
        Some (req\<lparr>req_Status := CertificateStatusRejected,
                  req_RejectedBy := user_Username adminUser,
                  req_RejectedAt := Some (clock w (clock_reads w)),
                  req_RejectedReason := reason\<rparr>)"
    using stored stored_request_ID [OF stored]
    by (simp add: run stored_request_def find_replace_same)
  show "\<forall>i. i \<noteq> reqID \<longrightarrow>
          stored_request (snd (RejectCertificateRequest reqID adminUser reason w)) i =
          stored_request w i"
    using stored_request_ID [OF stored]
    by (simp add: run stored_request_def find_replace_other)
  show "journal (snd (RejectCertificateRequest reqID adminUser reason w)) =
        journal w @ [SaveRequest reqID]"
    by (simp add: run)
  show "certificates (snd (RejectCertificateRequest reqID adminUser reason w)) = certificates w"
    by (simp add: run)
next
  assume "storage_healthy 1 w \<and> stored_request w reqID = Some req \<and> \<not> IsPending req"
  then show "RejectCertificateRequest reqID adminUser reason w =
        (Some (Errorf (''request is not pending, current status: '' @ req_Status req)),
         w\<lparr>db_calls := Suc (db_calls w)\<rparr>)"
    by (simp add: RejectCertificateRequest_def GetCertificateRequestByID_healthy
        storage_healthy_def)
qed

text \<open>On the concrete store: rejecting the pending request 7, and the rejected request 8.\<close>

theorem Reject_request_witness:
  "storage_healthy 2 scenario_world
 \<and> stored_request scenario_world 7 = Some alice_request
 \<and> IsPending alice_request
 \<and> fst (RejectCertificateRequest 7 admin ''no budget'' scenario_world) = None
 \<and> stored_request (snd (RejectCertificateRequest 7 admin ''no budget'' scenario_world)) 7 =
     Some (alice_request
            \<lparr>req_Status := ''rejected'', req_RejectedBy := ''admin'',
             req_RejectedAt := Some \<lparr>Year = 2026, Month = 11, Day = 1, Nanos = 0\<rparr>,
             req_RejectedReason := ''no budget''\<rparr>)
 \<and> journal (snd (RejectCertificateRequest 7 admin ''no budget'' scenario_world)) = [SaveRequest 7]
 \<and> certificates (snd (RejectCertificateRequest 7 admin ''no budget'' scenario_world)) =
     [bob_certificate, carol_certificate]
 \<and> stored_request scenario_world 8 = Some rejected_request
 \<and> \<not> IsPending rejected_request
 \<and> RejectCertificateRequest 8 admin ''again'' scenario_world =
     (Some (Errorf ''request is not pending, current status: rejected''),
      scenario_world\<lparr>db_calls := 1\<rparr>)"
proof -
  have h1: "storage_healthy 1 scenario_world" and h2: "storage_healthy 2 scenario_world"
    by (simp_all add: storage_healthy_def scenario_world_def)
  have stored7: "stored_request scenario_world 7 = Some alice_request"
    by (simp add: stored_request_def scenario_defs)
  have pending: "IsPending alice_request"
    by (simp add: IsPending_def alice_request_def status_defs)
  have stored8: "stored_request scenario_world 8 = Some rejected_request"
    by (simp add: stored_request_def scenario_defs)
  have settled: "\<not> IsPending rejected_request"
    by (simp add: IsPending_def rejected_request_def status_defs)
  have facts: "journal scenario_world = []"
    "certificates scenario_world = [bob_certificate, carol_certificate]"
    "clock scenario_world = scenario_clock" "clock_reads scenario_world = 0"
    "db_calls scenario_world = 0"
    "user_Username admin = ''admin''" "req_Status rejected_request = ''rejected''"
    by (simp_all add: scenario_world_def admin_def rejected_request_def)
  show ?thesis
    using h1 h2 stored7 pending stored8 settled
      Reject_request [of scenario_world 7 alice_request admin "''no budget''"]
      Reject_request [of scenario_world 8 rejected_request admin "''again''"]
    by (simp add: facts scenario_clock_def status_defs)
qed

subsection \<open>The status code of the tenant request handler\<close>

text \<open>
  C7. Whenever the service call of the tenant request handler returns an error, the handler
  answers with that error and the status code 400 exactly when the error's message text
  equals "certificate already exists for user" or "certificate request is pending for
  user", and with the status code 500 for every other error.
\<close>

theorem tenant_handler_status:
  "CreateTenantCertificateRequest user reqType reason w = (Inl err, w') \<longrightarrow>
     handles_CreateTenantCertificateRequest (Inr (reqType, reason)) user w =
       (ErrorResp err
          (if Error err = ''certificate already exists for user''
              \<or> Error err = ''certificate request is pending for user''
           then 400 else 500),
        w')"
  by (simp add: handles_CreateTenantCertificateRequest_def)

text \<open>
  On the concrete store: bob, whose certificate is expiring, gets 400; a storage failure
  during the first lookup gives 500.
\<close>

theorem tenant_handler_status_witness:
  "handles_CreateTenantCertificateRequest (Inr (''client'', ''renewal'')) bob scenario_world =
     (ErrorResp (Errorf ''certificate already exists for user'') 400,
      scenario_world\<lparr>db_calls := 1\<rparr>)
 \<and> handles_CreateTenantCertificateRequest (Inr (''client'', ''renewal'')) bob (failing_at 0) =
     (ErrorResp
        (Wrap (StorageError ''database is locked'') ''failed to check existing certificate'')
        500,
      (failing_at 0)\<lparr>db_calls := 1\<rparr>)"
proof -
  have refused: "CreateTenantCertificateRequest bob ''client'' ''renewal'' scenario_world =
      (Inl (Errorf ''certificate already exists for user''), scenario_world\<lparr>db_calls := 1\<rparr>)"
    by (simp add: scenario_defs bob_def CreateTenantCertificateRequest_def db_defs
        status_defs)
  have failed: "CreateTenantCertificateRequest bob ''client'' ''renewal'' (failing_at 0) =
      (Inl (Wrap (StorageError ''database is locked'') ''failed to check existing certificate''),
       (failing_at 0)\<lparr>db_calls := 1\<rparr>)"
    by (simp add: scenario_defs failing_at_def bob_def CreateTenantCertificateRequest_def db_defs
        status_defs)
  show ?thesis
    using
      tenant_handler_status [THEN mp, OF refused]
      tenant_handler_status [THEN mp, OF failed]
    by simp
qed

subsection \<open>The states of a request\<close>

text \<open>What each operation may do to the table of requests, whatever the storage does.\<close>

lemma Approve_requests:
  "cert_requests (snd (ApproveAndCreateCertificate reqID adminUser w)) = cert_requests w
   \<or> (\<exists>req. stored_request w reqID = Some req \<and> IsPending req
        \<and> cert_requests (snd (ApproveAndCreateCertificate reqID adminUser w)) =
            map (\<lambda>r. if req_ID r = reqID
                     then req\<lparr>req_Status := CertificateStatusValid,
                              req_ApprovedBy := user_Username adminUser,
                              req_ApprovedAt := Some (clock w (Suc (Suc (clock_reads w))))\<rparr>
                     else r) (cert_requests w))"
proof (cases "fault_plan w (db_calls w)")
  case (Some msg)
  then show ?thesis
    by (simp add: ApproveAndCreateCertificate_def db_GetCertificateRequestByID_def db_begin_def)
next
  case f1: None
  show ?thesis
  proof (cases "stored_request w reqID")
    case None
    then show ?thesis
      by (simp add: ApproveAndCreateCertificate_def GetCertificateRequestByID_healthy f1)
  next
    case (Some req)
    note id = stored_request_ID [OF Some]
    show ?thesis
    proof (cases "IsPending req")
      case False
      then show ?thesis
        by (simp add: ApproveAndCreateCertificate_def GetCertificateRequestByID_healthy f1 Some)
    next
      case True
      show ?thesis
      proof (cases "fault_plan w (Suc (db_calls w))")
        case (Some msg)
        then show ?thesis
          using True \<open>stored_request w reqID = Some req\<close>
          by (simp add: ApproveAndCreateCertificate_def GetCertificateRequestByID_healthy f1
              time_Now_def db_CreateCertificate_def db_begin_def)
      next
        case f2: None
        show ?thesis
        proof (cases "fault_plan w (Suc (Suc (db_calls w)))")
          case (Some msg)
          then show ?thesis
            using True \<open>stored_request w reqID = Some req\<close>
            by (simp add: ApproveAndCreateCertificate_def GetCertificateRequestByID_healthy f1 f2
                time_Now_def CreateCertificate_healthy UpdateCertificateRequest_faulty)
        next
          case f3: None
          show ?thesis
            using True \<open>stored_request w reqID = Some req\<close> id
            by (simp add: ApproveAndCreateCertificate_def GetCertificateRequestByID_healthy
                f1 f2 f3 time_Now_def CreateCertificate_healthy
                UpdateCertificateRequest_healthy)
        qed
      qed
    qed
  qed
qed

lemma Reject_requests:
  "cert_requests (snd (RejectCertificateRequest reqID adminUser reason w)) = cert_requests w
   \<or> (\<exists>req. stored_request w reqID = Some req \<and> IsPending req
        \<and> cert_requests (snd (RejectCertificateRequest reqID adminUser reason w)) =
            map (\<lambda>r. if req_ID r = reqID
                     then req\<lparr>req_Status := CertificateStatusRejected,
                              req_RejectedBy := user_Username adminUser,
                              req_RejectedAt := Some (clock w (clock_reads w)),
                              req_RejectedReason := reason\<rparr>
                     else r) (cert_requests w))"
proof (cases "fault_plan w (db_calls w)")
  case (Some msg)
  then show ?thesis
    by (simp add: RejectCertificateRequest_def db_GetCertificateRequestByID_def db_begin_def)
next
  case f1: None
  show ?thesis
  proof (cases "stored_request w reqID")
    case None
    then show ?thesis
      by (simp add: RejectCertificateRequest_def GetCertificateRequestByID_healthy f1)
  next
    case (Some req)
    note id = stored_request_ID [OF Some]
    show ?thesis
    proof (cases "IsPending req")
      case False
      then show ?thesis
        by (simp add: RejectCertificateRequest_def GetCertificateRequestByID_healthy f1 Some)
    next
      case True
      show ?thesis
      proof (cases "fault_plan w (Suc (db_calls w))")
        case (Some msg)
        then show ?thesis
          using True \<open>stored_request w reqID = Some req\<close>
          by (simp add: RejectCertificateRequest_def GetCertificateRequestByID_healthy f1
              time_Now_def UpdateCertificateRequest_faulty)
      next
        case f2: None
        show ?thesis
          using True \<open>stored_request w reqID = Some req\<close> id
          by (simp add: RejectCertificateRequest_def GetCertificateRequestByID_healthy
              f1 f2 time_Now_def UpdateCertificateRequest_healthy)
      qed
    qed
  qed
qed

lemma TenantRequest_requests:
  "cert_requests (snd (CreateTenantCertificateRequest user reqType reason w)) = cert_requests w
   \<or> (\<exists>new. cert_requests (snd (CreateTenantCertificateRequest user reqType reason w)) =
        cert_requests w @ [new])"
  by (auto simp: CreateTenantCertificateRequest_def db_GetCertificateByOwnerID_def
      db_GetPendingCertificateRequestByUserID_def db_CreateCertificateRequest_def
      db_begin_def Let_def
      split: prod.splits sum.splits option.splits if_splits)

lemma Revoke_requests:
  "cert_requests (snd (RevokeCertificate certID w)) = cert_requests w"
  by (auto simp: RevokeCertificate_def db_GetCertificateByID_def db_UpdateCertificate_def
      db_begin_def
      split: prod.splits sum.splits option.splits if_splits)

text \<open>
  One operation leaves a stored request as it is, or takes it from pending to valid by an
  approval of it, or from pending to rejected by a rejection of it.
\<close>

lemma step_status:
  assumes before: "stored_request w i = Some r"
  shows "stored_request (step x w) i = Some r
    \<or> (req_Status r = CertificateStatusPending
       \<and> (\<exists>adminUser. x = Approve i adminUser
            \<and> stored_request (step x w) i =
                Some (r\<lparr>req_Status := CertificateStatusValid,
                        req_ApprovedBy := user_Username adminUser,
                        req_ApprovedAt := Some (clock w (Suc (Suc (clock_reads w))))\<rparr>)))
    \<or> (req_Status r = CertificateStatusPending
       \<and> (\<exists>adminUser reason. x = Reject i adminUser reason
            \<and> stored_request (step x w) i =
                Some (r\<lparr>req_Status := CertificateStatusRejected,
                        req_RejectedBy := user_Username adminUser,
                        req_RejectedAt := Some (clock w (clock_reads w)),
                        req_RejectedReason := reason\<rparr>)))"
proof (cases x)
  case (Approve reqID adminUser)
  show ?thesis
    using Approve_requests [of reqID adminUser w]
  proof (elim disjE exE conjE)
    assume "cert_requests (snd (ApproveAndCreateCertificate reqID adminUser w)) = cert_requests w"
    then show ?thesis
      using before by (simp add: Approve stored_request_def)
  next
    fix req
    assume req: "stored_request w reqID = Some req" and pending: "IsPending req"
      and tab: "cert_requests (snd (ApproveAndCreateCertificate reqID adminUser w)) =
            map (\<lambda>r. if req_ID r = reqID
                     then req\<lparr>req_Status := CertificateStatusValid,
                              req_ApprovedBy := user_Username adminUser,
                              req_ApprovedAt := Some (clock w (Suc (Suc (clock_reads w))))\<rparr>
                     else r) (cert_requests w)"
    show ?thesis
    proof (cases "i = reqID")
      case True
      with req before have "req = r"
        by simp
      then show ?thesis
        using before pending True stored_request_ID [OF before]
        by (simp add: Approve stored_request_def tab find_replace_same IsPending_def)
    next
      case False
      then show ?thesis
        using before stored_request_ID [OF req]
        by (simp add: Approve stored_request_def tab find_replace_other)
    qed
  qed
next
  case (Reject reqID adminUser reason)
  show ?thesis
    using Reject_requests [of reqID adminUser reason w]
  proof (elim disjE exE conjE)
    assume "cert_requests (snd (RejectCertificateRequest reqID adminUser reason w)) = cert_requests w"
    then show ?thesis
      using before by (simp add: Reject stored_request_def)
  next
    fix req
    assume req: "stored_request w reqID = Some req" and pending: "IsPending req"
      and tab: "cert_requests (snd (RejectCertificateRequest reqID adminUser reason w)) =
            map (\<lambda>r. if req_ID r = reqID
                     then req\<lparr>req_Status := CertificateStatusRejected,
                              req_RejectedBy := user_Username adminUser,
                              req_RejectedAt := Some (clock w (clock_reads w)),
                              req_RejectedReason := reason\<rparr>
                     else r) (cert_requests w)"
    show ?thesis
    proof (cases "i = reqID")
      case True
      with req before have "req = r"
        by simp
      then show ?thesis
        using before pending True stored_request_ID [OF before]
        by (simp add: Reject stored_request_def tab find_replace_same IsPending_def)
    next
      case False
      then show ?thesis
        using before stored_request_ID [OF req]
        by (simp add: Reject stored_request_def tab find_replace_other)
    qed
  qed
next
  case (TenantRequest user reqType reason)
  show ?thesis
    using TenantRequest_requests [of user reqType reason w] before
    by (auto simp: TenantRequest stored_request_def find_append_Some)
next
  case (Revoke certID)
  show ?thesis
    using before by (simp add: Revoke stored_request_def Revoke_requests)
qed

lemma step_keeps_settled:
  assumes "stored_request w i = Some r" and "req_Status r \<noteq> CertificateStatusPending"
  shows "stored_request (step x w) i = Some r"
  using step_status [OF assms(1), of x] assms(2) by auto

lemma run_keeps_settled:
  "stored_request w i = Some r \<Longrightarrow> req_Status r \<noteq> CertificateStatusPending \<Longrightarrow>
     stored_request (run xs w) i = Some r"
  by (induction xs arbitrary: w) (simp_all add: step_keeps_settled)

text \<open>
  C10. In any sequence of the service's operations (approve, reject, tenant request
  creation, and revoke), whatever their arguments and whatever the storage does, a stored
  request whose status is valid or rejected stays exactly as it is. The only changes of
  status one operation makes to a stored request are pending to valid, by an approval of
  that request, and pending to rejected, by a rejection of that request.
\<close>

theorem request_status_terminal:
  "(stored_request w i = Some r
      \<and> (req_Status r = CertificateStatusValid \<or> req_Status r = CertificateStatusRejected) \<longrightarrow>
      stored_request (run xs w) i = Some r)
 \<and> (stored_request w i = Some r \<and> stored_request (step x w) i = Some r'
      \<and> req_Status r' \<noteq> req_Status r \<longrightarrow>
      req_Status r = CertificateStatusPending
      \<and> ((\<exists>adminUser. x = Approve i adminUser) \<and> req_Status r' = CertificateStatusValid
         \<or> (\<exists>adminUser reason. x = Reject i adminUser reason)
            \<and> req_Status r' = CertificateStatusRejected))"
proof (intro conjI impI)
  assume a: "stored_request w i = Some r
      \<and> (req_Status r = CertificateStatusValid \<or> req_Status r = CertificateStatusRejected)"
  then have "req_Status r \<noteq> CertificateStatusPending"
    by (auto simp: status_defs)
  with a show "stored_request (run xs w) i = Some r"
    by (simp add: run_keeps_settled)
next
  assume a: "stored_request w i = Some r \<and> stored_request (step x w) i = Some r'
      \<and> req_Status r' \<noteq> req_Status r"
  then have before: "stored_request w i = Some r" and after: "stored_request (step x w) i = Some r'"
    and changed: "req_Status r' \<noteq> req_Status r"
    by simp_all
  from step_status [OF before, of x] after changed
  show "req_Status r = CertificateStatusPending" by auto
  from step_status [OF before, of x] after changed
  show "(\<exists>adminUser. x = Approve i adminUser) \<and> req_Status r' = CertificateStatusValid
         \<or> (\<exists>adminUser reason. x = Reject i adminUser reason)
            \<and> req_Status r' = CertificateStatusRejected"
    by auto
qed

text \<open>
  On the concrete store: the rejected request 8 survives a second approval and rejection
  and the operations around them, and the approval of request 7 takes it from pending to
  valid.
\<close>

theorem request_status_terminal_witness:
  "stored_request scenario_world 8 = Some rejected_request
 \<and> req_Status rejected_request = CertificateStatusRejected
 \<and> stored_request
     (run [Approve 8 admin, Reject 8 admin ''again'', TenantRequest carol ''server'' ''lost key'',
           Approve 7 admin, Revoke 1] scenario_world) 8 = Some rejected_request
 \<and> stored_request scenario_world 7 = Some alice_request
 \<and> stored_request (step (Approve 7 admin) scenario_world) 7 =
     Some (alice_request
            \<lparr>req_Status := ''valid'', req_ApprovedBy := ''admin'',
             req_ApprovedAt := Some \<lparr>Year = 2026, Month = 11, Day = 1, Nanos = 2\<rparr>\<rparr>)
 \<and> req_Status alice_request = CertificateStatusPending"
proof -
  have stored8: "stored_request scenario_world 8 = Some rejected_request"
    by (simp add: stored_request_def scenario_defs)
  have rejected: "req_Status rejected_request = CertificateStatusRejected"
    by (simp add: rejected_request_def status_defs)
  have stored7: "stored_request scenario_world 7 = Some alice_request"
    by (simp add: stored_request_def scenario_defs)
  have approved: "stored_request (step (Approve 7 admin) scenario_world) 7 =
     Some (alice_request
            \<lparr>req_Status := ''valid'', req_ApprovedBy := ''admin'',
             req_ApprovedAt := Some \<lparr>Year = 2026, Month = 11, Day = 1, Nanos = 2\<rparr>\<rparr>)"
    by (simp add: scenario_defs admin_def ApproveAndCreateCertificate_def db_defs
        stored_request_def IsPending_def status_defs Let_def)
  have changed: "req_Status (alice_request
            \<lparr>req_Status := ''valid'', req_ApprovedBy := ''admin'',
             req_ApprovedAt := Some \<lparr>Year = 2026, Month = 11, Day = 1, Nanos = 2\<rparr>\<rparr>) \<noteq>
       req_Status alice_request"
    by (simp add: alice_request_def)
  show ?thesis
    using stored8 rejected stored7 approved changed
      request_status_terminal [of scenario_world 8 rejected_request
        "[Approve 8 admin, Reject 8 admin ''again'', TenantRequest carol ''server'' ''lost key'',
          Approve 7 admin, Revoke 1]"]
      request_status_terminal [of scenario_world 7 alice_request _
        "Approve 7 admin"
        "alice_request
            \<lparr>req_Status := ''valid'', req_ApprovedBy := ''admin'',
             req_ApprovedAt := Some \<lparr>Year = 2026, Month = 11, Day = 1, Nanos = 2\<rparr>\<rparr>"]
    by simp
qed

end
